theory Spec2Isabelle
  imports Complex_Main "HOL-Library.Multiset"
begin

section \<open>A payroll backend in four variants\<close>

text \<open>
  The repository holds four Express servers over the same two MongoDB collections,
  employees and attendance: \<^verbatim>\<open>backend/index.js\<close> (no authentication), \<^verbatim>\<open>part_001\<close>
  (credentials in every request body, admin and employee roles), \<^verbatim>\<open>part_002\<close> (the
  caller's email in a header) and \<^verbatim>\<open>part_003\<close> (the caller's email in a cookie).

  A route handler is a function from the database and the fields of the request that it
  reads to its response and the database it leaves. A collection is the list of its
  documents in insertion order; the Mongoose calls are functions on such lists. Requests
  are handled one after the other.
\<close>

section \<open>The JavaScript Date operations the handlers call\<close>

text \<open>
  A JavaScript \<^verbatim>\<open>Date\<close> holds a time value: milliseconds since the epoch, an integer.
  The definitions follow ECMAScript's "Date Objects" clause by name. The server's local
  time zone is a parameter \<open>tz\<close>, its offset from UTC in milliseconds, taken as constant
  (no daylight-saving changes). TimeClip (the bound of 8.64e15 ms) is left out: time
  values are unbounded integers.
\<close>

type_synonym instant = int

definition msPerDay :: int where
  "msPerDay = 86400000"

definition Day :: "instant \<Rightarrow> int" where
  "Day t = t div msPerDay"

definition TimeWithinDay :: "instant \<Rightarrow> int" where
  "TimeWithinDay t = t mod msPerDay"

definition DaysInYear :: "int \<Rightarrow> int" where
  "DaysInYear y =
     (if y mod 4 \<noteq> 0 then 365
      else if y mod 100 \<noteq> 0 then 366
      else if y mod 400 \<noteq> 0 then 365
      else 366)"

definition DayFromYear :: "int \<Rightarrow> int" where
  "DayFromYear y =
     365 * (y - 1970) + (y - 1969) div 4 - (y - 1901) div 100 + (y - 1601) div 400"

text \<open>
  ECMAScript: YearFromTime(t) is the largest \<open>y\<close> with TimeFromYear(y) \<le> t. Computed here
  on the day number from an estimate that is off by at most one (lemma
  \<open>YearFromDay_bounds\<close> shows that the result is that largest \<open>y\<close>).
\<close>

definition YearFromDay :: "int \<Rightarrow> int" where
  "YearFromDay d =
     (let y1 = 1970 + (400 * d) div 146097
      in if DayFromYear (y1 + 1) \<le> d then y1 + 1
         else if DayFromYear y1 \<le> d then y1
         else y1 - 1)"

definition YearFromTime :: "instant \<Rightarrow> int" where
  "YearFromTime t = YearFromDay (Day t)"

definition InLeapYear :: "instant \<Rightarrow> int" where
  "InLeapYear t = (if DaysInYear (YearFromTime t) = 366 then 1 else 0)"

definition DayWithinYear :: "instant \<Rightarrow> int" where
  "DayWithinYear t = Day t - DayFromYear (YearFromTime t)"

definition MonthFromTime :: "instant \<Rightarrow> int" where
  "MonthFromTime t =
     (let d = DayWithinYear t; l = InLeapYear t
      in if d < 31 then 0
         else if d < 59 + l then 1
         else if d < 90 + l then 2
         else if d < 120 + l then 3
         else if d < 151 + l then 4
         else if d < 181 + l then 5
         else if d < 212 + l then 6
         else if d < 243 + l then 7
         else if d < 273 + l then 8
         else if d < 304 + l then 9
         else if d < 334 + l then 10
         else 11)"

text \<open>The day within the year on which month \<open>mn\<close> (0 to 11) starts.\<close>

definition monthStart :: "int \<Rightarrow> int \<Rightarrow> int" where
  "monthStart mn l =
     (if mn = 0 then 0
      else if mn = 1 then 31
      else if mn = 2 then 59 + l
      else if mn = 3 then 90 + l
      else if mn = 4 then 120 + l
      else if mn = 5 then 151 + l
      else if mn = 6 then 181 + l
      else if mn = 7 then 212 + l
      else if mn = 8 then 243 + l
      else if mn = 9 then 273 + l
      else if mn = 10 then 304 + l
      else 334 + l)"

definition DateFromTime :: "instant \<Rightarrow> int" where
  "DateFromTime t = DayWithinYear t - monthStart (MonthFromTime t) (InLeapYear t) + 1"

definition MakeTime :: "int \<Rightarrow> int \<Rightarrow> int \<Rightarrow> int \<Rightarrow> int" where
  "MakeTime hour mn sec ms = hour * 3600000 + mn * 60000 + sec * 1000 + ms"

text \<open>
  ECMAScript: MakeDay(year, month, date) carries \<open>month div 12\<close> into the year, finds the
  first day of that month and adds \<open>date - 1\<close>; a date of 0 is the last day of the month
  before.
\<close>

definition MakeDay :: "int \<Rightarrow> int \<Rightarrow> int \<Rightarrow> int" where
  "MakeDay year month dt =
     (let ym = year + month div 12; mn = month mod 12
      in DayFromYear ym + monthStart mn (if DaysInYear ym = 366 then 1 else 0) + dt - 1)"

definition MakeDate :: "int \<Rightarrow> int \<Rightarrow> instant" where
  "MakeDate day time = day * msPerDay + time"

text \<open>ECMAScript: the Date constructor reads a year from 0 to 99 as 1900 + year.\<close>

definition MakeFullYear :: "int \<Rightarrow> int" where
  "MakeFullYear y = (if 0 \<le> y \<and> y \<le> 99 then 1900 + y else y)"

definition LocalTime :: "int \<Rightarrow> instant \<Rightarrow> int" where
  "LocalTime tz t = t + tz"

definition UTC :: "int \<Rightarrow> int \<Rightarrow> instant" where
  "UTC tz t = t - tz"

text \<open>\<^verbatim>\<open>new Date(y, m, dt, hours, minutes, seconds, ms)\<close>, in local time.\<close>

definition newDate :: "int \<Rightarrow> int \<Rightarrow> int \<Rightarrow> int \<Rightarrow> int \<Rightarrow> int \<Rightarrow> int \<Rightarrow> int \<Rightarrow> instant" where
  "newDate tz y m dt hours minutes seconds ms =
     UTC tz (MakeDate (MakeDay (MakeFullYear y) m dt) (MakeTime hours minutes seconds ms))"

definition getFullYear :: "int \<Rightarrow> instant \<Rightarrow> int" where
  "getFullYear tz t = YearFromTime (LocalTime tz t)"

definition getMonth :: "int \<Rightarrow> instant \<Rightarrow> int" where
  "getMonth tz t = MonthFromTime (LocalTime tz t)"

definition getDate :: "int \<Rightarrow> instant \<Rightarrow> int" where
  "getDate tz t = DateFromTime (LocalTime tz t)"

text \<open>\<^verbatim>\<open>d.setHours(hour, min, sec, ms)\<close>: the new time value of \<open>d\<close> (also its result).\<close>

definition setHours :: "int \<Rightarrow> instant \<Rightarrow> int \<Rightarrow> int \<Rightarrow> int \<Rightarrow> int \<Rightarrow> instant" where
  "setHours tz t hour mn sec ms =
     UTC tz (MakeDate (Day (LocalTime tz t)) (MakeTime hour mn sec ms))"


section \<open>Documents, requests and responses\<close>

text \<open>
  MongoDB ObjectIds are natural numbers here; every identifier a request carries is a
  well-formed ObjectId. A stored JavaScript Number is a rational. Mongoose's bookkeeping
  fields (\<^verbatim>\<open>createdAt\<close>, \<^verbatim>\<open>updatedAt\<close>, \<^verbatim>\<open>__v\<close>, and the \<^verbatim>\<open>_id\<close> of an attendance
  document) are not part of the model.
\<close>

type_synonym objectId = nat

datatype json =
    JNull
  | JBool bool
  | JNum rat
  | JStr string
  | JDate instant
  | JId objectId
  | JObj "(string \<times> json) list"
  | JArr "json list"

text \<open>The field \<open>k\<close> of a JSON object, if it has one.\<close>

fun field :: "string \<Rightarrow> json \<Rightarrow> json option" where
  "field k (JObj kvs) = map_of kvs k"
| "field k _ = None"

text \<open>The field names of a JSON object: the shape of a response body.\<close>

fun field_names :: "json \<Rightarrow> string list" where
  "field_names (JObj kvs) = map fst kvs"
| "field_names _ = []"

record response =
  code :: nat
  body :: json
  cookie :: "(string \<times> string) option"

text \<open>\<^verbatim>\<open>res.status(c).json(b)\<close>; \<^verbatim>\<open>res.json(b)\<close> is \<open>reply 200 b\<close>.\<close>

definition reply :: "nat \<Rightarrow> json \<Rightarrow> response" where
  "reply c b = \<lparr>code = c, body = b, cookie = None\<rparr>"

text \<open>
  A request field that is a string: \<open>None\<close> when the body does not have it
  (\<^verbatim>\<open>undefined\<close>). JavaScript's \<^verbatim>\<open>!x\<close> holds of \<^verbatim>\<open>undefined\<close> and of the empty string.
\<close>

definition truthy :: "string option \<Rightarrow> bool" where
  "truthy x = (case x of None \<Rightarrow> False | Some s \<Rightarrow> s \<noteq> [])"

text \<open>The value of a field that is known to be there.\<close>

definition str :: "string option \<Rightarrow> string" where
  "str x = (case x of None \<Rightarrow> [] | Some s \<Rightarrow> s)"

definition num :: "'a::zero option \<Rightarrow> 'a" where
  "num x = (case x of None \<Rightarrow> 0 | Some n \<Rightarrow> n)"

text \<open>
  The \<^verbatim>\<open>date\<close> field of a request: absent or falsy (\<open>NoDate\<close>), a value that
  \<^verbatim>\<open>new Date(date)\<close> turns into an Invalid Date (\<open>BadDate\<close>), or a value that it parses to
  the time value \<open>t\<close> (\<open>DateAt t\<close>).
\<close>

datatype date_field = NoDate | BadDate | DateAt instant

text \<open>The Attendance schema (the same fields in every variant).\<close>

record attendance =
  employee :: objectId
  date :: instant
  status :: string

text \<open>
  The Employee schema of \<^verbatim>\<open>backend/index.js\<close>, \<^verbatim>\<open>part_002\<close> and \<^verbatim>\<open>part_003\<close>
  (identified by email).
\<close>

record employee =
  e_id :: objectId
  name :: "string option"
  email :: string
  password :: string
  role :: string
  monthlySalary :: rat
  designation :: "string option"
  joiningDate :: instant

text \<open>The Employee schema of \<^verbatim>\<open>part_001\<close> (identified by username).\<close>

record employee1 =
  id1 :: objectId
  name1 :: string
  username :: string
  password1 :: string
  role1 :: string
  salary :: rat
  empId :: string

text \<open>
  The database: the two collections in insertion order, and the next fresh ObjectId.
\<close>

record 'e store =
  employees :: "'e list"
  attendances :: "attendance list"
  nextId :: objectId

definition opt_field :: "string \<Rightarrow> string option \<Rightarrow> (string \<times> json) list" where
  "opt_field k v = (case v of None \<Rightarrow> [] | Some s \<Rightarrow> [(k, JStr s)])"

text \<open>A Mongoose document as \<^verbatim>\<open>res.json\<close> serialises it: every stored field.\<close>

definition employee_json :: "employee \<Rightarrow> json" where
  "employee_json e =
     JObj ([(''_id'', JId (e_id e))] @ opt_field ''name'' (name e) @
           [(''email'', JStr (email e)), (''password'', JStr (password e)),
            (''role'', JStr (role e)), (''monthlySalary'', JNum (monthlySalary e))] @
           opt_field ''designation'' (designation e) @
           [(''joiningDate'', JDate (joiningDate e))])"

definition employee1_json :: "employee1 \<Rightarrow> json" where
  "employee1_json e =
     JObj [(''_id'', JId (id1 e)), (''name'', JStr (name1 e)),
           (''username'', JStr (username e)), (''password'', JStr (password1 e)),
           (''role'', JStr (role1 e)), (''salary'', JNum (salary e)),
           (''empId'', JStr (empId e))]"

text \<open>\<^verbatim>\<open>.select('-password')\<close>, and \<^verbatim>\<open>delete employeeData.password\<close>.\<close>

fun select_minus_password :: "json \<Rightarrow> json" where
  "select_minus_password (JObj kvs) = JObj (filter (\<lambda>kv. fst kv \<noteq> ''password'') kvs)"
| "select_minus_password j = j"

definition attendance_json :: "json \<Rightarrow> attendance \<Rightarrow> json" where
  "attendance_json emp a =
     JObj [(''employee'', emp), (''date'', JDate (date a)), (''status'', JStr (status a))]"

section \<open>The store operations (Mongoose)\<close>

text \<open>
  An equality on a key that the handler puts into the filter only when the request has
  the parameter (\<^verbatim>\<open>if (employeeId) q.employee = employeeId\<close>).
\<close>

definition eq_filter :: "'a option \<Rightarrow> 'a \<Rightarrow> bool" where
  "eq_filter q v = (case q of None \<Rightarrow> True | Some x \<Rightarrow> v = x)"

text \<open>\<^verbatim>\<open>Model.findOne(q)\<close>: the first document that matches, in insertion order.\<close>

definition findOne :: "('a \<Rightarrow> bool) \<Rightarrow> 'a list \<Rightarrow> 'a option" where
  "findOne q xs = find q xs"

text \<open>\<^verbatim>\<open>Model.countDocuments(q)\<close>.\<close>

definition countDocuments :: "('a \<Rightarrow> bool) \<Rightarrow> 'a list \<Rightarrow> nat" where
  "countDocuments q xs = length (filter q xs)"

text \<open>
  \<^verbatim>\<open>Model.deleteMany(q)\<close>. (\<^verbatim>\<open>findByIdAndDelete\<close> is \<open>findOne\<close> on the \<^verbatim>\<open>_id\<close> and \<open>remove1\<close> of
  the document found.)
\<close>

definition deleteMany :: "('a \<Rightarrow> bool) \<Rightarrow> 'a list \<Rightarrow> 'a list" where
  "deleteMany q xs = filter (\<lambda>x. \<not> q x) xs"

text \<open>
  \<^verbatim>\<open>Attendance.findOneAndUpdate(q, update, { new: true, upsert: true,
  setDefaultsOnInsert: true })\<close>: the first document matching \<open>q\<close> is updated in place by
  \<open>upd\<close>; when none matches, the document \<open>ins\<close> is inserted at the end.
\<close>

fun findOneAndUpdate :: "('a \<Rightarrow> bool) \<Rightarrow> ('a \<Rightarrow> 'a) \<Rightarrow> 'a \<Rightarrow> 'a list \<Rightarrow> 'a list" where
  "findOneAndUpdate q upd ins [] = [ins]"
| "findOneAndUpdate q upd ins (x # xs) =
     (if q x then upd x # xs else x # findOneAndUpdate q upd ins xs)"

text \<open>The document \<^verbatim>\<open>findOneAndUpdate\<close> returns (\<^verbatim>\<open>new: true\<close>: after the update).\<close>

definition updated_doc :: "('a \<Rightarrow> bool) \<Rightarrow> ('a \<Rightarrow> 'a) \<Rightarrow> 'a \<Rightarrow> 'a list \<Rightarrow> 'a" where
  "updated_doc q upd ins xs = (case find q xs of None \<Rightarrow> ins | Some x \<Rightarrow> upd x)"


section \<open>\<^verbatim>\<open>backend/index.js\<close>: the service without authentication\<close>

definition startOfMonth :: "int \<Rightarrow> int \<Rightarrow> int \<Rightarrow> instant" where
  "startOfMonth tz y m = newDate tz y (m - 1) 1 0 0 0 0"

definition endOfMonth :: "int \<Rightarrow> int \<Rightarrow> int \<Rightarrow> instant" where
  "endOfMonth tz y m = newDate tz y m 0 23 59 59 999"

text \<open>
  \<^verbatim>\<open>Math.round\<close> rounds to the nearest integer, a half upwards. The salary arithmetic of
  the model is exact rational arithmetic where the code computes with IEEE doubles; no
  theorem below is about its result.
\<close>

definition Math_round :: "rat \<Rightarrow> rat" where
  "Math_round x = of_int \<lfloor>x + 1 / 2\<rfloor>"

record salarySlip =
  slip_employee :: employee
  year :: int
  month :: int
  presentDays :: nat
  calculatedSalary :: rat

text \<open>
  \<^verbatim>\<open>calcSalaryForMonth(id, y, m)\<close> (the same function in \<^verbatim>\<open>part_002\<close> and \<^verbatim>\<open>part_003\<close>);
  \<open>Inl\<close> is the message of the Error it throws.
\<close>

definition calcSalaryForMonth :: "int \<Rightarrow> employee store \<Rightarrow> objectId \<Rightarrow> int \<Rightarrow> int \<Rightarrow> string + salarySlip" where
  "calcSalaryForMonth tz st i y m =
     (case findOne (\<lambda>e. e_id e = i) (employees st) of
        None \<Rightarrow> Inl ''Employee not found''
      | Some emp \<Rightarrow>
          (let from = startOfMonth tz y m;
               to = endOfMonth tz y m;
               presentCount = countDocuments
                 (\<lambda>a. employee a = i \<and> from \<le> date a \<and> date a \<le> to \<and> status a = ''present'')
                 (attendances st);
               sal = monthlySalary emp * (of_nat presentCount / 30)
           in Inr \<lparr>slip_employee = emp, year = y, month = m, presentDays = presentCount,
                   calculatedSalary = Math_round sal\<rparr>))"

definition salarySlip_json :: "salarySlip \<Rightarrow> json" where
  "salarySlip_json s =
     JObj [(''employee'', employee_json (slip_employee s)), (''year'', JNum (of_int (year s))),
           (''month'', JNum (of_int (month s))), (''presentDays'', JNum (of_nat (presentDays s))),
           (''calculatedSalary'', JNum (calculatedSalary s))]"

text \<open>
  \<^verbatim>\<open>GET /salary/generate\<close>. The query parameters are strings: \<open>None\<close> is a parameter that is
  absent or empty, \<open>Some n\<close> one that \<^verbatim>\<open>+x\<close> reads as the integer \<open>n\<close>.
\<close>

definition get_salary_generate :: "int \<Rightarrow> employee store \<Rightarrow> objectId option \<Rightarrow> int option \<Rightarrow> int option \<Rightarrow> response" where
  "get_salary_generate tz st employeeId mth yr =
     (case (employeeId, mth, yr) of
        (Some i, Some m, Some y) \<Rightarrow>
          (case calcSalaryForMonth tz st i y m of
             Inl msg \<Rightarrow> reply 500 (JObj [(''error'', JStr msg)])
           | Inr slip \<Rightarrow> reply 200 (JObj [(''ok'', JBool True), (''salarySlip'', salarySlip_json slip)]))
      | _ \<Rightarrow> reply 400 (JObj [(''error'', JStr ''employeeId,month,year required'')]))"

text \<open>
  \<^verbatim>\<open>POST /auth/login\<close> (the same handler in \<^verbatim>\<open>part_002\<close>), for a body that has both
  \<^verbatim>\<open>email\<close> and \<^verbatim>\<open>password\<close>, strings.
\<close>

definition post_auth_login :: "employee store \<Rightarrow> string \<Rightarrow> string \<Rightarrow> response" where
  "post_auth_login st em pw =
     (case findOne (\<lambda>e. email e = em \<and> password e = pw) (employees st) of
        None \<Rightarrow> reply 401 (JObj [(''error'', JStr ''invalid email or password'')])
      | Some user \<Rightarrow>
          reply 200 (JObj [(''ok'', JBool True), (''message'', JStr ''Login success''),
                           (''user'', employee_json user)]))"

text \<open>\<^verbatim>\<open>DELETE /employees/:id\<close>: the attendance of \<open>i\<close> is deleted first.\<close>

definition delete_employees :: "employee store \<Rightarrow> objectId \<Rightarrow> response \<times> employee store" where
  "delete_employees st i =
     (let st1 = st\<lparr>attendances := deleteMany (\<lambda>a. employee a = i) (attendances st)\<rparr>
      in case findOne (\<lambda>e. e_id e = i) (employees st1) of
           None \<Rightarrow> (reply 404 (JObj [(''error'', JStr ''not found'')]), st1)
         | Some emp \<Rightarrow>
             (reply 200 (JObj [(''ok'', JBool True), (''deleted'', employee_json emp)]),
              st1\<lparr>employees := remove1 emp (employees st1)\<rparr>))"

text \<open>
  \<^verbatim>\<open>POST /attendance\<close>. The filter is the local day of \<open>d\<close>, rebuilt from its year, month
  and date; the update stores \<open>d\<close> itself. Mongoose leaves an \<^verbatim>\<open>undefined\<close> status out of
  the update, and the schema default \<^verbatim>\<open>'present'\<close> applies on insert only. An Invalid Date
  fails the cast of the filter (the message of the library's error is abbreviated).
\<close>

definition post_attendance :: "int \<Rightarrow> employee store \<Rightarrow> objectId option \<Rightarrow> date_field \<Rightarrow> string option \<Rightarrow> response \<times> employee store" where
  "post_attendance tz st emp dt sts =
     (case (emp, dt) of
        (None, _) \<Rightarrow> (reply 400 (JObj [(''error'', JStr ''employee and date required'')]), st)
      | (Some e, NoDate) \<Rightarrow> (reply 400 (JObj [(''error'', JStr ''employee and date required'')]), st)
      | (Some e, BadDate) \<Rightarrow> (reply 500 (JObj [(''error'', JStr ''Cast to date failed'')]), st)
      | (Some e, DateAt d) \<Rightarrow>
          (let lo = newDate tz (getFullYear tz d) (getMonth tz d) (getDate tz d) 0 0 0 0;
               hi = newDate tz (getFullYear tz d) (getMonth tz d) (getDate tz d) 23 59 59 999;
               q = (\<lambda>a. employee a = e \<and> lo \<le> date a \<and> date a \<le> hi);
               upd = (\<lambda>a. a\<lparr>employee := e,
                             status := (case sts of None \<Rightarrow> status a | Some v \<Rightarrow> v),
                             date := d\<rparr>);
               ins = \<lparr>employee = e, date = d,
                      status = (case sts of None \<Rightarrow> ''present'' | Some v \<Rightarrow> v)\<rparr>;
               att = updated_doc q upd ins (attendances st)
           in (reply 200 (JObj [(''ok'', JBool True),
                                (''attendance'', attendance_json (JId (employee att)) att)]),
               st\<lparr>attendances := findOneAndUpdate q upd ins (attendances st)\<rparr>)))"

text \<open>\<^verbatim>\<open>.populate('employee')\<close>: the referenced document, or null when there is none.\<close>

definition populate :: "employee list \<Rightarrow> objectId \<Rightarrow> json" where
  "populate emps i =
     (case findOne (\<lambda>e. e_id e = i) emps of None \<Rightarrow> JNull | Some e \<Rightarrow> employee_json e)"

text \<open>The documents \<^verbatim>\<open>GET /attendance\<close> finds, and the route.\<close>

definition attendance_query :: "int \<Rightarrow> objectId option \<Rightarrow> int option \<Rightarrow> int option \<Rightarrow> attendance \<Rightarrow> bool" where
  "attendance_query tz employeeId mth yr a =
     (eq_filter employeeId (employee a) \<and>
      (case (mth, yr) of
         (Some m, Some y) \<Rightarrow> startOfMonth tz y m \<le> date a \<and> date a \<le> endOfMonth tz y m
       | _ \<Rightarrow> True))"

definition get_attendance :: "int \<Rightarrow> employee store \<Rightarrow> objectId option \<Rightarrow> int option \<Rightarrow> int option \<Rightarrow> response" where
  "get_attendance tz st employeeId mth yr =
     reply 200 (JObj [(''ok'', JBool True),
       (''attendance'',
        JArr (map (\<lambda>a. attendance_json (populate (employees st) (employee a)) a)
                  (filter (attendance_query tz employeeId mth yr) (attendances st))))])"

section \<open>\<^verbatim>\<open>part_002\<close> and \<^verbatim>\<open>part_003\<close>: identity from a header or a cookie\<close>

text \<open>
  \<^verbatim>\<open>auth\<close>: \<open>em\<close> is the value of the \<^verbatim>\<open>x-user-email\<close> header (\<^verbatim>\<open>part_002\<close>) or of the
  \<^verbatim>\<open>userEmail\<close> cookie (\<^verbatim>\<open>part_003\<close>); \<open>Inr\<close> is the user the request goes on with. The two
  files differ in the second message (\<^verbatim>\<open>'invalid user'\<close>, \<^verbatim>\<open>'invalid session'\<close>).
\<close>

definition auth :: "string \<Rightarrow> employee store \<Rightarrow> string option \<Rightarrow> response + employee" where
  "auth invalid st em =
     (if \<not> truthy em then Inl (reply 401 (JObj [(''error'', JStr ''not logged in'')]))
      else case findOne (\<lambda>e. email e = str em) (employees st) of
             None \<Rightarrow> Inl (reply 401 (JObj [(''error'', JStr invalid)]))
           | Some user \<Rightarrow> Inr user)"

text \<open>\<^verbatim>\<open>POST /auth/login\<close> of \<^verbatim>\<open>part_003\<close>: it also sets the session cookie.\<close>

definition post_auth_login3 :: "employee store \<Rightarrow> string \<Rightarrow> string \<Rightarrow> response" where
  "post_auth_login3 st em pw =
     (case findOne (\<lambda>e. email e = em \<and> password e = pw) (employees st) of
        None \<Rightarrow> reply 401 (JObj [(''error'', JStr ''invalid email or password'')])
      | Some user \<Rightarrow>
          (reply 200 (JObj [(''ok'', JBool True), (''message'', JStr ''Login success''),
                            (''user'', employee_json user)]))
          \<lparr>cookie := Some (''userEmail'', email user)\<rparr>)"

text \<open>\<^verbatim>\<open>DELETE /employees/:id\<close> of \<^verbatim>\<open>part_002\<close>.\<close>

definition delete_employees2 :: "employee store \<Rightarrow> string option \<Rightarrow> objectId \<Rightarrow> response \<times> employee store" where
  "delete_employees2 st hdr i =
     (case auth ''invalid user'' st hdr of
        Inl r \<Rightarrow> (r, st)
      | Inr user \<Rightarrow>
          (case findOne (\<lambda>e. e_id e = i) (employees st) of
             None \<Rightarrow> (reply 404 (JObj [(''error'', JStr ''Employee not found'')]), st)
           | Some emp \<Rightarrow>
               (reply 200 (JObj [(''ok'', JBool True),
                                 (''message'', JStr ''Employee deleted successfully'')]),
                st\<lparr>employees := remove1 emp (employees st)\<rparr>)))"

text \<open>
  \<^verbatim>\<open>POST /attendance\<close> of \<^verbatim>\<open>part_002\<close> and \<^verbatim>\<open>part_003\<close>. Both \<^verbatim>\<open>d.setHours\<close> calls change
  \<open>d\<close> before the update object reads it: the date stored is the end of the day.
\<close>

definition post_attendance2 :: "string \<Rightarrow> int \<Rightarrow> employee store \<Rightarrow> string option \<Rightarrow> objectId option \<Rightarrow> date_field \<Rightarrow> string option \<Rightarrow> response \<times> employee store" where
  "post_attendance2 invalid tz st ident emp dt sts =
     (case auth invalid st ident of
        Inl r \<Rightarrow> (r, st)
      | Inr user \<Rightarrow>
          (case (emp, dt) of
             (None, _) \<Rightarrow> (reply 400 (JObj [(''error'', JStr ''employee and date required'')]), st)
           | (Some e, NoDate) \<Rightarrow>
               (reply 400 (JObj [(''error'', JStr ''employee and date required'')]), st)
           | (Some e, BadDate) \<Rightarrow> (reply 500 (JObj [(''error'', JStr ''Cast to date failed'')]), st)
           | (Some e, DateAt d) \<Rightarrow>
               (let d1 = setHours tz d 0 0 0 0;
                    d2 = setHours tz d1 23 59 59 999;
                    q = (\<lambda>a. employee a = e \<and> d1 \<le> date a \<and> date a \<le> d2);
                    upd = (\<lambda>a. a\<lparr>employee := e,
                                  status := (case sts of None \<Rightarrow> status a | Some v \<Rightarrow> v),
                                  date := d2\<rparr>);
                    ins = \<lparr>employee = e, date = d2,
                           status = (case sts of None \<Rightarrow> ''present'' | Some v \<Rightarrow> v)\<rparr>;
                    att = updated_doc q upd ins (attendances st)
                in (reply 200 (JObj [(''ok'', JBool True),
                                     (''attendance'', attendance_json (JId (employee att)) att)]),
                    st\<lparr>attendances := findOneAndUpdate q upd ins (attendances st)\<rparr>))))"


section \<open>\<^verbatim>\<open>part_001\<close>: credentials in the body, admin and employee roles\<close>

text \<open>
  \<^verbatim>\<open>req.body\<close>: every field a handler of this file reads. A string field is \<open>None\<close> when
  absent; a number is falsy when absent or 0.
\<close>

record body1 =
  b_username :: "string option"
  b_password :: "string option"
  b_employeeId :: "objectId option"
  b_name :: "string option"
  username_new :: "string option"
  password_new :: "string option"
  b_salary :: "rat option"
  b_empId :: "string option"
  b_date :: date_field
  b_status :: "string option"
  b_month :: "int option"
  b_year :: "int option"

text \<open>\<^verbatim>\<open>res.status(c).json({ ok: false, error: m })\<close>.\<close>

definition fail1 :: "nat \<Rightarrow> string \<Rightarrow> response" where
  "fail1 c m = reply c (JObj [(''ok'', JBool False), (''error'', JStr m)])"

definition startOfDay :: "int \<Rightarrow> instant \<Rightarrow> instant" where
  "startOfDay tz t = setHours tz t 0 0 0 0"

definition endOfDay :: "int \<Rightarrow> instant \<Rightarrow> instant" where
  "endOfDay tz t = setHours tz t 23 59 59 999"

record payslip =
  employee_1 :: employee1
  year1 :: int
  month1 :: int
  presentDays1 :: nat
  totalDaysInMonth :: int
  baseSalary :: rat
  perDaySalary :: rat
  calculatedSalary1 :: rat

text \<open>\<^verbatim>\<open>calculateSalary(employeeId, year, month)\<close>.\<close>

definition calculateSalary :: "int \<Rightarrow> employee1 store \<Rightarrow> objectId \<Rightarrow> int \<Rightarrow> int \<Rightarrow> string + payslip" where
  "calculateSalary tz st employeeId y m =
     (case findOne (\<lambda>e. id1 e = employeeId) (employees st) of
        None \<Rightarrow> Inl ''Employee not found''
      | Some emp \<Rightarrow>
          (let from = startOfMonth tz y m;
               to = endOfMonth tz y m;
               present = countDocuments
                 (\<lambda>a. employee a = employeeId \<and> from \<le> date a \<and> date a \<le> to \<and>
                      status a = ''present'')
                 (attendances st);
               perDay = salary emp / 30;
               calculated = perDay * of_nat present
           in Inr \<lparr>employee_1 = emp, year1 = y, month1 = m, presentDays1 = present,
                   totalDaysInMonth = getDate tz (newDate tz y m 0 0 0 0 0),
                   baseSalary = salary emp,
                   perDaySalary = Math_round (perDay * 100) / 100,
                   calculatedSalary1 = Math_round (calculated * 100) / 100\<rparr>))"

definition payslip_json :: "payslip \<Rightarrow> json" where
  "payslip_json p =
     JObj [(''employee'', employee1_json (employee_1 p)), (''year'', JNum (of_int (year1 p))),
           (''month'', JNum (of_int (month1 p))), (''presentDays'', JNum (of_nat (presentDays1 p))),
           (''totalDaysInMonth'', JNum (of_int (totalDaysInMonth p))),
           (''baseSalary'', JNum (baseSalary p)), (''perDaySalary'', JNum (perDaySalary p)),
           (''calculatedSalary'', JNum (calculatedSalary1 p))]"

text \<open>
  The middleware \<^verbatim>\<open>authenticate\<close>: \<open>Inr user\<close> is \<^verbatim>\<open>req.user = user; next()\<close>, \<open>Inl\<close> the
  response that ends the request.
\<close>

definition authenticate :: "employee1 store \<Rightarrow> body1 \<Rightarrow> response + employee1" where
  "authenticate st b =
     (if \<not> truthy (b_username b) \<or> \<not> truthy (b_password b)
      then Inl (fail1 401 ''Username and password required in request body'')
      else case findOne (\<lambda>e. username e = str (b_username b) \<and>
                              password1 e = str (b_password b)) (employees st) of
             None \<Rightarrow> Inl (fail1 401 ''Invalid username or password'')
           | Some user \<Rightarrow> Inr user)"

text \<open>The middleware \<^verbatim>\<open>adminOnly\<close>: \<open>None\<close> is \<^verbatim>\<open>next()\<close>.\<close>

definition adminOnly :: "employee1 \<Rightarrow> response option" where
  "adminOnly user =
     (if role1 user \<noteq> ''admin''
      then Some (fail1 403 ''Access denied. Admin privileges required.'')
      else None)"

text \<open>
  A route registered as \<^verbatim>\<open>app.post(path, authenticate, adminOnly, handler)\<close>: the handler
  runs only when both middlewares call \<^verbatim>\<open>next()\<close>.
\<close>

definition admin_route :: "(employee1 store \<Rightarrow> body1 \<Rightarrow> response \<times> employee1 store) \<Rightarrow> employee1 store \<Rightarrow> body1 \<Rightarrow> response \<times> employee1 store" where
  "admin_route handler st b =
     (case authenticate st b of
        Inl r \<Rightarrow> (r, st)
      | Inr user \<Rightarrow>
          (case adminOnly user of
             Some r \<Rightarrow> (r, st)
           | None \<Rightarrow> handler st b))"

text \<open>\<^verbatim>\<open>POST /admin/login\<close> and \<^verbatim>\<open>POST /employee/login\<close> (\<open>r\<close> is the role asked for).\<close>

definition role_login :: "string \<Rightarrow> string \<Rightarrow> string \<Rightarrow> employee1 store \<Rightarrow> body1 \<Rightarrow> response" where
  "role_login r invalid greeting st b =
     (if \<not> truthy (b_username b) \<or> \<not> truthy (b_password b)
      then fail1 400 ''Username and password required''
      else case findOne (\<lambda>e. username e = str (b_username b) \<and>
                              password1 e = str (b_password b) \<and> role1 e = r)
                  (employees st) of
             None \<Rightarrow> fail1 401 invalid
           | Some user \<Rightarrow>
               reply 200 (JObj [(''ok'', JBool True), (''message'', JStr greeting),
                                (''user'', select_minus_password (employee1_json user))]))"

definition post_admin_login :: "employee1 store \<Rightarrow> body1 \<Rightarrow> response" where
  "post_admin_login = role_login ''admin'' ''Invalid admin credentials'' ''Admin login successful''"

definition post_employee_login :: "employee1 store \<Rightarrow> body1 \<Rightarrow> response" where
  "post_employee_login =
     role_login ''employee'' ''Invalid employee credentials'' ''Employee login successful''"

text \<open>
  The unique indexes of the file: on \<^verbatim>\<open>username\<close>, on \<^verbatim>\<open>empId\<close>, and on the pair
  (employee, date) of an attendance document. A write that would break one fails with a
  duplicate-key error and changes nothing.
\<close>

definition employees_unique :: "employee1 list \<Rightarrow> bool" where
  "employees_unique es = (distinct (map username es) \<and> distinct (map empId es))"

definition attendance_unique :: "attendance list \<Rightarrow> bool" where
  "attendance_unique xs = distinct (map (\<lambda>a. (employee a, date a)) xs)"

text \<open>\<^verbatim>\<open>findByIdAndUpdate\<close>: the first document matching \<open>q\<close>, updated in place.\<close>

fun updateOne :: "('a \<Rightarrow> bool) \<Rightarrow> ('a \<Rightarrow> 'a) \<Rightarrow> 'a list \<Rightarrow> 'a list" where
  "updateOne q upd [] = []"
| "updateOne q upd (x # xs) = (if q x then upd x # xs else x # updateOne q upd xs)"

text \<open>The handler of \<^verbatim>\<open>POST /admin/employees/create\<close>.\<close>

definition create_handler :: "employee1 store \<Rightarrow> body1 \<Rightarrow> response \<times> employee1 store" where
  "create_handler st b =
     (if \<not> truthy (b_name b) \<or> \<not> truthy (username_new b) \<or> \<not> truthy (password_new b) \<or>
         \<not> truthy (b_empId b)
      then (fail1 400
              ''Name, username_new, password_new, and empId are required for the new employee'',
            st)
      else case findOne (\<lambda>e. username e = str (username_new b) \<or> empId e = str (b_empId b))
                  (employees st) of
             Some existingEmp \<Rightarrow> (fail1 400 ''Username or Employee ID already exists'', st)
           | None \<Rightarrow>
               (let newEmployee =
                      \<lparr>id1 = nextId st, name1 = str (b_name b),
                       username = str (username_new b), password1 = str (password_new b),
                       role1 = ''employee'',
                       salary = (if num (b_salary b) = 0 then 30000 else num (b_salary b)),
                       empId = str (b_empId b)\<rparr>
                in (reply 200
                      (JObj [(''ok'', JBool True),
                             (''message'', JStr ''Employee created successfully''),
                             (''employee'', select_minus_password (employee1_json newEmployee)),
                             (''credentials'',
                              JObj [(''username'', JStr (str (username_new b))),
                                    (''password'', JStr (str (password_new b)))])]),
                    st\<lparr>employees := employees st @ [newEmployee], nextId := nextId st + 1\<rparr>)))"

text \<open>
  The handler of \<^verbatim>\<open>POST /admin/employees/list\<close>; \<^verbatim>\<open>createdAt\<close> descending is the
  insertion order reversed.
\<close>

definition list_handler :: "employee1 store \<Rightarrow> body1 \<Rightarrow> response \<times> employee1 store" where
  "list_handler st b =
     (let found = rev (filter (\<lambda>e. role1 e = ''employee'') (employees st))
      in (reply 200
            (JObj [(''ok'', JBool True),
                   (''employees'', JArr (map (\<lambda>e. select_minus_password (employee1_json e)) found)),
                   (''count'', JNum (of_nat (length found)))]),
          st))"

text \<open>The handler of \<^verbatim>\<open>POST /admin/employees/get\<close>.\<close>

definition get_handler :: "employee1 store \<Rightarrow> body1 \<Rightarrow> response \<times> employee1 store" where
  "get_handler st b =
     (case b_employeeId b of
        None \<Rightarrow> (fail1 400 ''Employee ID required'', st)
      | Some i \<Rightarrow>
          (case findOne (\<lambda>e. id1 e = i) (employees st) of
             None \<Rightarrow> (fail1 404 ''Employee not found'', st)
           | Some emp \<Rightarrow>
               (reply 200 (JObj [(''ok'', JBool True),
                                 (''employee'', select_minus_password (employee1_json emp))]),
                st)))"

text \<open>The handler of \<^verbatim>\<open>POST /admin/employees/update\<close>.\<close>

definition update_handler :: "employee1 store \<Rightarrow> body1 \<Rightarrow> response \<times> employee1 store" where
  "update_handler st b =
     (case b_employeeId b of
        None \<Rightarrow> (fail1 400 ''Employee ID required'', st)
      | Some i \<Rightarrow>
          (let updateData = (\<lambda>e. e
                 \<lparr>name1 := (if truthy (b_name b) then str (b_name b) else name1 e),
                  username := (if truthy (username_new b) then str (username_new b) else username e),
                  password1 := (if truthy (password_new b) then str (password_new b) else password1 e),
                  salary := (if num (b_salary b) \<noteq> 0 then num (b_salary b) else salary e),
                  empId := (if truthy (b_empId b) then str (b_empId b) else empId e)\<rparr>);
               es = updateOne (\<lambda>e. id1 e = i) updateData (employees st)
           in case findOne (\<lambda>e. id1 e = i) (employees st) of
                None \<Rightarrow> (fail1 404 ''Employee not found'', st)
              | Some old \<Rightarrow>
                  if \<not> employees_unique es then (fail1 500 ''E11000 duplicate key error'', st)
                  else (reply 200
                          (JObj [(''ok'', JBool True),
                                 (''message'', JStr ''Employee updated successfully''),
                                 (''employee'',
                                  select_minus_password (employee1_json (updateData old)))]),
                        st\<lparr>employees := es\<rparr>)))"

text \<open>The handler of \<^verbatim>\<open>POST /admin/employees/delete\<close>.\<close>

definition delete_handler :: "employee1 store \<Rightarrow> body1 \<Rightarrow> response \<times> employee1 store" where
  "delete_handler st b =
     (case b_employeeId b of
        None \<Rightarrow> (fail1 400 ''Employee ID required'', st)
      | Some i \<Rightarrow>
          (case findOne (\<lambda>e. id1 e = i) (employees st) of
             None \<Rightarrow> (fail1 404 ''Employee not found'', st)
           | Some deleted \<Rightarrow>
               (reply 200 (JObj [(''ok'', JBool True),
                                 (''message'',
                                  JStr ''Employee and related records deleted successfully'')]),
                st\<lparr>employees := remove1 deleted (employees st),
                   attendances := deleteMany (\<lambda>a. employee a = i) (attendances st)\<rparr>)))"

text \<open>\<^verbatim>\<open>.populate('employee', 'name empId username')\<close>.\<close>

definition populate1 :: "employee1 list \<Rightarrow> objectId \<Rightarrow> json" where
  "populate1 emps i =
     (case findOne (\<lambda>e. id1 e = i) emps of
        None \<Rightarrow> JNull
      | Some e \<Rightarrow> JObj [(''_id'', JId (id1 e)), (''name'', JStr (name1 e)),
                         (''empId'', JStr (empId e)), (''username'', JStr (username e))])"

text \<open>
  The handler of \<^verbatim>\<open>POST /admin/attendance/mark\<close>. When several documents match the
  filter, the one updated is taken to be the first in insertion order.
\<close>

definition mark_handler :: "int \<Rightarrow> employee1 store \<Rightarrow> body1 \<Rightarrow> response \<times> employee1 store" where
  "mark_handler tz st b =
     (if b_employeeId b = None \<or> b_date b = NoDate
      then (fail1 400 ''Employee ID and date required'', st)
      else if truthy (b_status b) \<and> str (b_status b) \<notin> set [''present'', ''absent'']
      then (fail1 400 ''Status must be either \"present\" or \"absent\"'', st)
      else case findOne (\<lambda>e. id1 e = num (b_employeeId b)) (employees st) of
             None \<Rightarrow> (fail1 404 ''Employee not found'', st)
           | Some emp \<Rightarrow>
               (case b_date b of
                  DateAt d \<Rightarrow>
                    (let employeeId = num (b_employeeId b);
                         attendanceDate = startOfDay tz d;
                         q = (\<lambda>a. employee a = employeeId \<and>
                                   startOfDay tz attendanceDate \<le> date a \<and>
                                   date a \<le> endOfDay tz attendanceDate);
                         sts = (if truthy (b_status b) then str (b_status b) else ''present'');
                         upd = (\<lambda>a. a\<lparr>employee := employeeId, date := attendanceDate,
                                       status := sts\<rparr>);
                         ins = \<lparr>employee = employeeId, date = attendanceDate, status = sts\<rparr>;
                         xs = findOneAndUpdate q upd ins (attendances st);
                         att = updated_doc q upd ins (attendances st)
                     in if \<not> attendance_unique xs
                        then (fail1 500 ''E11000 duplicate key error'', st)
                        else (reply 200
                                (JObj [(''ok'', JBool True),
                                       (''message'', JStr ''Attendance marked successfully''),
                                       (''attendance'',
                                        attendance_json (populate1 (employees st) (employee att))
                                          att)]),
                              st\<lparr>attendances := xs\<rparr>))
                | _ \<Rightarrow> (fail1 500 ''Cast to date failed'', st)))"

text \<open>
  The documents \<^verbatim>\<open>POST /admin/attendance/view\<close> finds (not yet sorted), and its handler.
\<close>

definition view_query :: "int \<Rightarrow> objectId \<Rightarrow> int option \<Rightarrow> int option \<Rightarrow> attendance \<Rightarrow> bool" where
  "view_query tz i mth yr a =
     (employee a = i \<and>
      (if num mth \<noteq> 0 \<and> num yr \<noteq> 0
       then startOfMonth tz (num yr) (num mth) \<le> date a \<and> date a \<le> endOfMonth tz (num yr) (num mth)
       else True))"

definition view_handler :: "int \<Rightarrow> employee1 store \<Rightarrow> body1 \<Rightarrow> response \<times> employee1 store" where
  "view_handler tz st b =
     (case b_employeeId b of
        None \<Rightarrow> (fail1 400 ''Employee ID required'', st)
      | Some i \<Rightarrow>
          (let found = rev (sort_key date
                 (filter (view_query tz i (b_month b) (b_year b)) (attendances st)))
           in (reply 200
                 (JObj [(''ok'', JBool True),
                        (''attendance'',
                         JArr (map (\<lambda>a. attendance_json (populate1 (employees st) (employee a)) a)
                                   found)),
                        (''summary'',
                         JObj [(''totalRecords'', JNum (of_nat (length found))),
                               (''presentDays'',
                                JNum (of_nat (length (filter (\<lambda>a. status a = ''present'') found)))),
                               (''absentDays'',
                                JNum (of_nat (length (filter (\<lambda>a. status a = ''absent'') found))))])]),
               st)))"

text \<open>The handler of \<^verbatim>\<open>POST /admin/payslip/generate\<close>.\<close>

definition payslip_handler :: "int \<Rightarrow> employee1 store \<Rightarrow> body1 \<Rightarrow> response \<times> employee1 store" where
  "payslip_handler tz st b =
     (if b_employeeId b = None \<or> num (b_month b) = 0 \<or> num (b_year b) = 0
      then (fail1 400 ''Employee ID, month, and year required'', st)
      else case calculateSalary tz st (num (b_employeeId b)) (num (b_year b)) (num (b_month b)) of
             Inl msg \<Rightarrow> (fail1 500 msg, st)
           | Inr p \<Rightarrow> (reply 200 (JObj [(''ok'', JBool True), (''payslip'', payslip_json p)]), st))"

text \<open>
  The admin-only routes of the file. (\<^verbatim>\<open>POST /admin/payslip/pdf\<close> passes through the same
  two middlewares; the drawing of the document is not modelled.)
\<close>

datatype admin_op =
    CreateEmployee | ListEmployees | GetEmployee | UpdateEmployee | DeleteEmployee
  | MarkAttendance | ViewAttendance | GeneratePayslip

fun admin_handler :: "int \<Rightarrow> admin_op \<Rightarrow> employee1 store \<Rightarrow> body1 \<Rightarrow> response \<times> employee1 store" where
  "admin_handler tz CreateEmployee = create_handler"
| "admin_handler tz ListEmployees = list_handler"
| "admin_handler tz GetEmployee = get_handler"
| "admin_handler tz UpdateEmployee = update_handler"
| "admin_handler tz DeleteEmployee = delete_handler"
| "admin_handler tz MarkAttendance = mark_handler tz"
| "admin_handler tz ViewAttendance = view_handler tz"
| "admin_handler tz GeneratePayslip = payslip_handler tz"

definition admin_request :: "int \<Rightarrow> admin_op \<Rightarrow> employee1 store \<Rightarrow> body1 \<Rightarrow> response \<times> employee1 store" where
  "admin_request tz op = admin_route (admin_handler tz op)"

section \<open>The seeded databases, and the calendar notions of the specification\<close>

text \<open>
  The documents the files insert at start-up (\<^verbatim>\<open>insertMany\<close> in \<^verbatim>\<open>part_002\<close> and
  \<^verbatim>\<open>part_003\<close>, \<^verbatim>\<open>/seed-default\<close> in \<^verbatim>\<open>backend/index.js\<close>, \<^verbatim>\<open>Employee.create\<close> in
  \<^verbatim>\<open>part_001\<close>), with ObjectIds 1 and 2 and the joining date \<open>now\<close>.
\<close>

definition seed_admin :: "instant \<Rightarrow> employee" where
  "seed_admin now =
     \<lparr>e_id = 1, name = Some ''Admin'', email = ''admin@pavakie.com'', password = ''admin123'',
      role = ''admin'', monthlySalary = 50000, designation = Some ''HR Manager'',
      joiningDate = now\<rparr>"

definition seed_employee :: "instant \<Rightarrow> employee" where
  "seed_employee now =
     \<lparr>e_id = 2, name = Some ''Sample Employee'', email = ''employee@pavakie.com'',
      password = ''emp123'', role = ''employee'', monthlySalary = 30000,
      designation = Some ''Developer'', joiningDate = now\<rparr>"

definition seeded :: "instant \<Rightarrow> employee store" where
  "seeded now = \<lparr>employees = [seed_admin now, seed_employee now], attendances = [], nextId = 3\<rparr>"

definition seed_admin1 :: employee1 where
  "seed_admin1 =
     \<lparr>id1 = 1, name1 = ''System Admin'', username = ''admin'', password1 = ''admin123'',
      role1 = ''admin'', salary = 50000, empId = ''ADMIN001''\<rparr>"

definition seeded1 :: "employee1 store" where
  "seeded1 = \<lparr>employees = [seed_admin1], attendances = [], nextId = 2\<rparr>"

text \<open>
  The states of \<^verbatim>\<open>part_001\<close>: the seeded database, and every state a request to an
  admin-only route leads to (no other route of the file writes).
\<close>

inductive reachable1 :: "int \<Rightarrow> employee1 store \<Rightarrow> bool" for tz :: int where
  seeded: "reachable1 tz seeded1"
| request: "reachable1 tz st \<Longrightarrow> reachable1 tz (snd (admin_request tz op st b))"

text \<open>
  The time value \<open>t\<close> lies in month \<open>m\<close> (1 to 12) of the calendar year \<open>y\<close>, in local
  time.
\<close>

definition in_month :: "int \<Rightarrow> int \<Rightarrow> int \<Rightarrow> instant \<Rightarrow> bool" where
  "in_month tz y m t = (getFullYear tz t = y \<and> getMonth tz t + 1 = m)"

text \<open>The local calendar day of a time value, and its time within that day.\<close>

definition localDay :: "int \<Rightarrow> instant \<Rightarrow> int" where
  "localDay tz t = Day (LocalTime tz t)"

definition timeOfDay :: "int \<Rightarrow> instant \<Rightarrow> int" where
  "timeOfDay tz t = TimeWithinDay (LocalTime tz t)"

text \<open>At most one attendance document for each employee and local calendar day.\<close>

definition one_per_day :: "int \<Rightarrow> attendance list \<Rightarrow> bool" where
  "one_per_day tz xs = distinct (map (\<lambda>a. (employee a, localDay tz (date a))) xs)"

text \<open>
  The specification's count for \<open>computeSalary\<close>: the stored attendance documents of
  employee \<open>i\<close> with status present and a date in month \<open>m\<close> of the calendar year \<open>y\<close>. It
  is a function of the multiset of documents, not of their order.
\<close>

definition present_records :: "int \<Rightarrow> objectId \<Rightarrow> int \<Rightarrow> int \<Rightarrow> attendance multiset \<Rightarrow> attendance multiset" where
  "present_records tz i y m A =
     {#a \<in># A. employee a = i \<and> status a = ''present'' \<and> in_month tz y m (date a)#}"

text \<open>
  The scenario of the specification: employee 2 is marked present on five days of March
  2025 (UTC); the other documents are an absence, days of the months around, and a day of
  employee 1.
\<close>

definition march_2025 :: "attendance list" where
  "march_2025 =
     [\<lparr>employee = 2, date = 1740992400000, status = ''present''\<rparr>,
      \<lparr>employee = 2, date = 1740787199999, status = ''present''\<rparr>,
      \<lparr>employee = 2, date = 1741078800000, status = ''present''\<rparr>,
      \<lparr>employee = 1, date = 1740992400000, status = ''present''\<rparr>,
      \<lparr>employee = 2, date = 1741165200000, status = ''present''\<rparr>,
      \<lparr>employee = 2, date = 1741564800000, status = ''absent''\<rparr>,
      \<lparr>employee = 2, date = 1740787200000, status = ''present''\<rparr>,
      \<lparr>employee = 2, date = 1743465600000, status = ''present''\<rparr>,
      \<lparr>employee = 2, date = 1743465599999, status = ''present''\<rparr>]"

definition employee_E1 :: employee1 where
  "employee_E1 =
     \<lparr>id1 = 2, name1 = ''A'', username = ''a'', password1 = ''secret'', role1 = ''employee'',
      salary = 30000, empId = ''E1''\<rparr>"

text \<open>The request body \<^verbatim>\<open>{}\<close>.\<close>

definition empty_body :: body1 where
  "empty_body =
     \<lparr>b_username = None, b_password = None, b_employeeId = None, b_name = None,
      username_new = None, password_new = None, b_salary = None, b_empId = None,
      b_date = NoDate, b_status = None, b_month = None, b_year = None\<rparr>"

text \<open>The body \<^verbatim>\<open>{ username: u, password: p }\<close>.\<close>

definition credentials :: "string \<Rightarrow> string \<Rightarrow> body1" where
  "credentials u p = empty_body\<lparr>b_username := Some u, b_password := Some p\<rparr>"

text \<open>
  The database of \<^verbatim>\<open>part_001\<close> after the admin has created the employee E1, and the bodies
  \<^verbatim>\<open>{ username, password, employeeId, date, status }\<close> of a request to mark attendance.
\<close>

definition with_E1 :: "employee1 store" where
  "with_E1 = \<lparr>employees = [seed_admin1, employee_E1], attendances = [], nextId = 3\<rparr>"

definition mark_body :: "string \<Rightarrow> string \<Rightarrow> objectId \<Rightarrow> instant \<Rightarrow> string option \<Rightarrow> body1" where
  "mark_body u p i t s =
     (credentials u p)\<lparr>b_employeeId := Some i, b_date := DateAt t, b_status := s\<rparr>"

text \<open>Noon (UTC) of 15 June of the year 50, and 09:00 (UTC) of 3 March 2025.\<close>

definition noon_15_June_50 :: instant where
  "noon_15_June_50 = - 60574996800000"

definition morning_3_March_2025 :: instant where
  "morning_3_March_2025 = 1740992400000"

section \<open>The calendar\<close>

lemma div_bounds: "0 < k \<Longrightarrow> k * ((x::int) div k) \<le> x \<and> x < k * (x div k) + k"
proof -
  assume k: "0 < k"
  have "x = k * (x div k) + x mod k" by simp
  moreover have "0 \<le> x mod k" "x mod k < k" using k by simp_all
  ultimately show ?thesis by linarith
qed

lemma div_step:
  "0 < k \<Longrightarrow> ((x::int) + 1) div k = x div k + (if (x + 1) mod k = 0 then 1 else 0)"
proof -
  assume k: "0 < k"
  define q where "q = x div k"
  define r where "r = x mod k"
  have x: "x = k * q + r" and r: "0 \<le> r" "r < k"
    using k by (simp_all add: q_def r_def)
  show ?thesis
  proof (cases "r + 1 = k")
    case True
    then have "x + 1 = k * (q + 1)" using x by (simp add: algebra_simps)
    then show ?thesis using k by (simp add: q_def)
  next
    case False
    then have lt: "r + 1 < k" using r by simp
    have e: "x + 1 = (r + 1) + k * q" using x by simp
    have "(x + 1) div k = q"
      unfolding e using lt r k by (simp add: div_pos_pos_trivial)
    moreover have "(x + 1) mod k = r + 1"
      unfolding e using lt r k by (simp add: mod_pos_pos_trivial)
    ultimately show ?thesis using r by (simp add: q_def)
  qed
qed

lemma mod_shift: "((y::int) - k * c) mod k = y mod k"
  by (metis diff_conv_add_uminus mod_mult_self2 mult_minus_right)

text \<open>A year has as many days as \<open>DaysInYear\<close> says.\<close>

lemma DayFromYear_Suc: "DayFromYear (y + 1) = DayFromYear y + DaysInYear y"
proof -
  have a: "(y + 1 - 1969) div 4 = (y - 1969) div 4 + (if y mod 4 = 0 then 1 else 0)"
    using div_step [of 4 "y - 1969"] mod_shift [of y 4 492] by (simp add: algebra_simps)
  have b: "(y + 1 - 1901) div 100 = (y - 1901) div 100 + (if y mod 100 = 0 then 1 else 0)"
    using div_step [of 100 "y - 1901"] mod_shift [of y 100 19] by (simp add: algebra_simps)
  have c: "(y + 1 - 1601) div 400 = (y - 1601) div 400 + (if y mod 400 = 0 then 1 else 0)"
    using div_step [of 400 "y - 1601"] mod_shift [of y 400 4] by (simp add: algebra_simps)
  have d1: "y mod 400 = 0 \<Longrightarrow> y mod 100 = 0"
  proof -
    assume "y mod 400 = 0"
    then have "400 dvd y" by (simp add: dvd_eq_mod_eq_0)
    moreover have "(100::int) dvd 400" by simp
    ultimately have "100 dvd y" by (rule dvd_trans [rotated])
    then show ?thesis by (simp add: dvd_eq_mod_eq_0)
  qed
  have d2: "y mod 100 = 0 \<Longrightarrow> y mod 4 = 0"
  proof -
    assume "y mod 100 = 0"
    then have "100 dvd y" by (simp add: dvd_eq_mod_eq_0)
    moreover have "(4::int) dvd 100" by simp
    ultimately have "4 dvd y" by (rule dvd_trans [rotated])
    then show ?thesis by (simp add: dvd_eq_mod_eq_0)
  qed
  show ?thesis
    unfolding DayFromYear_def DaysInYear_def a b c using d1 d2 by auto
qed

lemma DayFromYear_lower: "146097 * (y - 1970) - 506 \<le> 400 * DayFromYear y"
  using div_bounds [of 4 "y - 1969"] div_bounds [of 100 "y - 1901"]
    div_bounds [of 400 "y - 1601"]
  unfolding DayFromYear_def by (simp add: algebra_simps)

lemma DayFromYear_upper: "400 * DayFromYear y \<le> 146097 * (y - 1970) + 589"
  using div_bounds [of 4 "y - 1969"] div_bounds [of 100 "y - 1901"]
    div_bounds [of 400 "y - 1601"]
  unfolding DayFromYear_def by (simp add: algebra_simps)

lemma DayFromYear_strict_mono: "y < y' \<Longrightarrow> DayFromYear y < DayFromYear y'"
  using DayFromYear_lower [of y'] DayFromYear_upper [of y] by (simp add: algebra_simps)

lemma DayFromYear_mono: "y \<le> y' \<Longrightarrow> DayFromYear y \<le> DayFromYear y'"
  using DayFromYear_strict_mono [of y y'] by (cases "y = y'") auto

text \<open>\<open>YearFromDay d\<close> is the year ECMAScript defines: the one that contains day \<open>d\<close>.\<close>

lemma YearFromDay_bounds:
  "DayFromYear (YearFromDay d) \<le> d \<and> d < DayFromYear (YearFromDay d + 1)"
proof -
  define n where "n = (400 * d) div 146097"
  have n: "146097 * n \<le> 400 * d" "400 * d < 146097 * n + 146097"
    unfolding n_def using div_bounds [of 146097 "400 * d"] by simp_all
  have lo: "DayFromYear (1970 + n - 1) \<le> d"
    using DayFromYear_upper [of "1970 + n - 1"] n by (simp add: algebra_simps)
  have hi: "d < DayFromYear (1970 + n + 1 + 1)"
    using DayFromYear_lower [of "1970 + n + 1 + 1"] n by (simp add: algebra_simps)
  show ?thesis
    using lo hi unfolding YearFromDay_def n_def [symmetric] Let_def
    by (auto simp: algebra_simps)
qed

lemma YearFromDay_unique:
  assumes "DayFromYear y \<le> d" "d < DayFromYear (y + 1)"
  shows "YearFromDay d = y"
proof (rule ccontr)
  assume ne: "YearFromDay d \<noteq> y"
  have b: "DayFromYear (YearFromDay d) \<le> d" "d < DayFromYear (YearFromDay d + 1)"
    using YearFromDay_bounds by blast+
  show False
  proof (cases "YearFromDay d < y")
    case True
    then have "DayFromYear (YearFromDay d + 1) \<le> DayFromYear y"
      by (intro DayFromYear_mono) simp
    then show False using b assms by linarith
  next
    case False
    then have "DayFromYear (y + 1) \<le> DayFromYear (YearFromDay d)"
      using ne by (intro DayFromYear_mono) simp
    then show False using b assms by linarith
  qed
qed

lemma MonthFromTime_range: "0 \<le> MonthFromTime t \<and> MonthFromTime t \<le> 11"
  by (simp add: MonthFromTime_def Let_def)

text \<open>Year, month and date of a time value name its day.\<close>

lemma MakeDay_of_time:
  "MakeDay (YearFromTime t) (MonthFromTime t) (DateFromTime t) = Day t"
proof -
  have "MonthFromTime t div 12 = 0" "MonthFromTime t mod 12 = MonthFromTime t"
    using MonthFromTime_range [of t] by simp_all
  then show ?thesis
    by (simp add: MakeDay_def DateFromTime_def InLeapYear_def DayWithinYear_def)
qed

lemma Day_window:
  "(a * msPerDay \<le> t \<and> t \<le> b * msPerDay + 86399999) \<longleftrightarrow> (a \<le> Day t \<and> Day t \<le> b)"
proof -
  have k: "86400000 * (t div 86400000) \<le> t \<and> t < 86400000 * (t div 86400000) + 86400000"
    by (rule div_bounds) simp
  show ?thesis
    unfolding Day_def msPerDay_def using k by auto
qed

text \<open>The days of month \<open>mn\<close> (0 to 11) of year \<open>y\<close>.\<close>

lemma month_days:
  assumes "0 \<le> mn" "mn \<le> 11"
  shows "(DayFromYear y + monthStart mn (if DaysInYear y = 366 then 1 else 0) \<le> Day t \<and>
          Day t \<le> (if mn = 11 then DayFromYear (y + 1) - 1
                else DayFromYear y + monthStart (mn + 1) (if DaysInYear y = 366 then 1 else 0) - 1))
         \<longleftrightarrow> (YearFromTime t = y \<and> MonthFromTime t = mn)"
proof -
  have cases12: "mn = 0 \<or> mn = 1 \<or> mn = 2 \<or> mn = 3 \<or> mn = 4 \<or> mn = 5 \<or> mn = 6 \<or> mn = 7
      \<or> mn = 8 \<or> mn = 9 \<or> mn = 10 \<or> mn = 11"
    using assms by presburger
  have diy: "DaysInYear y = 365 \<or> DaysInYear y = 366" by (simp add: DaysInYear_def)
  show ?thesis
  proof
    assume L: "DayFromYear y + monthStart mn (if DaysInYear y = 366 then 1 else 0) \<le> Day t \<and>
          Day t \<le> (if mn = 11 then DayFromYear (y + 1) - 1
                else DayFromYear y + monthStart (mn + 1) (if DaysInYear y = 366 then 1 else 0) - 1)"
    have "DayFromYear y \<le> Day t \<and> Day t < DayFromYear (y + 1)"
      using L cases12 diy DayFromYear_Suc [of y] by (auto simp: monthStart_def split: if_splits)
    then have Y: "YearFromDay (Day t) = y" using YearFromDay_unique by blast
    show "YearFromTime t = y \<and> MonthFromTime t = mn"
      using L cases12 diy Y
      by (auto simp: MonthFromTime_def Let_def InLeapYear_def DayWithinYear_def YearFromTime_def
            monthStart_def split: if_splits)
  next
    assume R: "YearFromTime t = y \<and> MonthFromTime t = mn"
    have b: "DayFromYear y \<le> Day t" "Day t < DayFromYear y + DaysInYear y"
      using YearFromDay_bounds [of "Day t"] R DayFromYear_Suc [of y]
      by (auto simp: YearFromTime_def)
    show "DayFromYear y + monthStart mn (if DaysInYear y = 366 then 1 else 0) \<le> Day t \<and>
          Day t \<le> (if mn = 11 then DayFromYear (y + 1) - 1
                else DayFromYear y + monthStart (mn + 1) (if DaysInYear y = 366 then 1 else 0) - 1)"
      using R b diy DayFromYear_Suc [of y] cases12
      by (auto simp: MonthFromTime_def Let_def InLeapYear_def DayWithinYear_def YearFromTime_def
            monthStart_def split: if_splits)
  qed
qed

text \<open>
  \<open>startOfMonth\<close> and \<open>endOfMonth\<close> are the first and the last millisecond of month \<open>m\<close> of
  the year that the Date constructor reads \<open>y\<close> as: \<open>y\<close> itself only when \<open>y\<close> is not one of
  0 to 99.
\<close>

lemma month_range:
  assumes "1 \<le> m" "m \<le> 12"
  shows "(startOfMonth tz y m \<le> t \<and> t \<le> endOfMonth tz y m)
         \<longleftrightarrow> in_month tz (MakeFullYear y) m t"
proof -
  define Y where "Y = MakeFullYear y"
  define l where "l = (if DaysInYear Y = 366 then 1 else (0::int))"
  have m1: "(m - 1) div 12 = 0" "(m - 1) mod 12 = m - 1"
    using assms by simp_all
  have first: "MakeDay Y (m - 1) 1 = DayFromYear Y + monthStart (m - 1) l"
    by (simp add: MakeDay_def m1 l_def)
  have last: "MakeDay Y m 0 = (if m - 1 = 11 then DayFromYear (Y + 1) - 1
       else DayFromYear Y + monthStart (m - 1 + 1) l - 1)"
  proof (cases "m = 12")
    case True
    then show ?thesis by (simp add: MakeDay_def monthStart_def)
  next
    case False
    then have "m div 12 = 0" "m mod 12 = m" using assms by simp_all
    then show ?thesis using False by (simp add: MakeDay_def l_def)
  qed
  have "(startOfMonth tz y m \<le> t \<and> t \<le> endOfMonth tz y m) \<longleftrightarrow>
        (MakeDay Y (m - 1) 1 * msPerDay \<le> LocalTime tz t \<and>
         LocalTime tz t \<le> MakeDay Y m 0 * msPerDay + 86399999)"
    by (auto simp: startOfMonth_def endOfMonth_def newDate_def UTC_def MakeDate_def MakeTime_def
          LocalTime_def Y_def)
  also have "\<dots> \<longleftrightarrow> (MakeDay Y (m - 1) 1 \<le> Day (LocalTime tz t) \<and>
        Day (LocalTime tz t) \<le> MakeDay Y m 0)"
    by (rule Day_window)
  also have "\<dots> \<longleftrightarrow> (YearFromTime (LocalTime tz t) = Y \<and> MonthFromTime (LocalTime tz t) = m - 1)"
    unfolding first last l_def using assms by (intro month_days) simp_all
  also have "\<dots> \<longleftrightarrow> in_month tz (MakeFullYear y) m t"
    by (auto simp: in_month_def getFullYear_def getMonth_def Y_def)
  finally show ?thesis .
qed

section \<open>The salary computation and the present days of the month\<close>

lemma findOne_Some: "findOne q xs = Some x \<Longrightarrow> x \<in> set xs \<and> q x"
  by (auto simp: findOne_def find_Some_iff)

lemma findOne_None: "findOne q xs = None \<longleftrightarrow> (\<forall>x \<in> set xs. \<not> q x)"
  by (auto simp: findOne_def find_None_iff)

text \<open>
  The count of both salary functions, for a month from 1 to 12: the present documents of
  the employee in that month of the year \<open>MakeFullYear y\<close>.
\<close>

lemma countDocuments_present_records:
  assumes "1 \<le> m" "m \<le> 12"
  shows "countDocuments (\<lambda>a. employee a = i \<and> startOfMonth tz y m \<le> date a \<and>
                       date a \<le> endOfMonth tz y m \<and> status a = ''present'') xs
   = size (present_records tz i (MakeFullYear y) m (mset xs))"
proof -
  have "filter (\<lambda>a. employee a = i \<and> startOfMonth tz y m \<le> date a \<and>
                     date a \<le> endOfMonth tz y m \<and> status a = ''present'') xs
      = filter (\<lambda>a. employee a = i \<and> status a = ''present'' \<and>
                     in_month tz (MakeFullYear y) m (date a)) xs"
    by (rule filter_cong) (use month_range [OF assms] in auto)
  then show ?thesis
    by (simp add: countDocuments_def present_records_def flip: mset_filter)
qed

text \<open>
  For a year that is not one of 0 to 99, \<open>presentDays\<close> is the specification's count: the
  number of stored attendance documents of the employee with status present whose local
  date lies in the calendar month, whatever the order of insertion.
\<close>

lemma presentDays_outside_years_0_to_99:
  fixes st :: "employee store" and st1 :: "employee1 store"
  assumes "1 \<le> m" "m \<le> 12" "y < 0 \<or> 99 < y"
  shows "findOne (\<lambda>e. e_id e = i) (employees st) = Some emp \<Longrightarrow>
            \<exists>slip. calcSalaryForMonth tz st i y m = Inr slip \<and>
               presentDays slip = size (present_records tz i y m (mset (attendances st)))"
    and "findOne (\<lambda>e. id1 e = i) (employees st1) = Some emp1 \<Longrightarrow>
            \<exists>p. calculateSalary tz st1 i y m = Inr p \<and>
               presentDays1 p = size (present_records tz i y m (mset (attendances st1)))"
proof -
  have y: "MakeFullYear y = y"
    using assms(3) by (auto simp: MakeFullYear_def)
  show "findOne (\<lambda>e. e_id e = i) (employees st) = Some emp \<Longrightarrow>
            \<exists>slip. calcSalaryForMonth tz st i y m = Inr slip \<and>
               presentDays slip = size (present_records tz i y m (mset (attendances st)))"
    using countDocuments_present_records [OF assms(1,2), of i tz y "attendances st"]
    by (simp add: calcSalaryForMonth_def Let_def y)
  show "findOne (\<lambda>e. id1 e = i) (employees st1) = Some emp1 \<Longrightarrow>
            \<exists>p. calculateSalary tz st1 i y m = Inr p \<and>
               presentDays1 p = size (present_records tz i y m (mset (attendances st1)))"
    using countDocuments_present_records [OF assms(1,2), of i tz y "attendances st1"]
    by (simp add: calculateSalary_def Let_def y)
qed

text \<open>The scenario of the specification: five present days in March 2025.\<close>

lemma presentDays_march_2025:
  "map_sum id presentDays
     (calcSalaryForMonth 0 ((seeded 0)\<lparr>attendances := march_2025\<rparr>) 2 2025 3) = Inr 5"
  "map_sum id presentDays1
     (calculateSalary 0 (with_E1\<lparr>attendances := rev march_2025\<rparr>) 2 2025 3) = Inr 5"
  by (simp_all add: calcSalaryForMonth_def calculateSalary_def countDocuments_def Let_def
      findOne_def seeded_def seed_admin_def seed_employee_def with_E1_def seed_admin1_def
      employee_E1_def march_2025_def startOfMonth_def endOfMonth_def newDate_def
      UTC_def MakeDate_def MakeDay_def MakeTime_def MakeFullYear_def DayFromYear_def
      DaysInYear_def monthStart_def msPerDay_def)

text \<open>
  C2. For a year from 0 to 99 the count is not that of the month asked for.
  \<open>startOfMonth\<close> and \<open>endOfMonth\<close> pass the year to the Date constructor, which reads 50 as
  1950: the range of \<open>(50, 6)\<close> is June 1950. The employee has one present document, dated
  noon of 15 June of the year 50 (stored by \<^verbatim>\<open>POST /attendance\<close> of \<^verbatim>\<open>backend/index.js\<close>, and
  as the start of that day by \<^verbatim>\<open>POST /admin/attendance/mark\<close> of \<^verbatim>\<open>part_001\<close>): its local
  date lies in June of the year 50, and \<open>presentDays\<close> for \<open>(50, 6)\<close> is 0 in both files.
\<close>

theorem year_50_month_counts_june_1950:
  "startOfMonth 0 50 6 = - 618105600000 \<and>
   endOfMonth 0 50 6 = - 615513600001 \<and>
   in_month 0 1950 6 (startOfMonth 0 50 6) \<and>
   in_month 0 1950 6 (endOfMonth 0 50 6) \<and>
   attendances (snd (post_attendance 0 (seeded 0) (Some 2) (DateAt noon_15_June_50)
     (Some ''present'')))
     = [\<lparr>employee = 2, date = noon_15_June_50, status = ''present''\<rparr>] \<and>
   in_month 0 50 6 noon_15_June_50 \<and>
   map_sum id presentDays
     (calcSalaryForMonth 0
        (snd (post_attendance 0 (seeded 0) (Some 2) (DateAt noon_15_June_50) (Some ''present'')))
        2 50 6) = Inr 0 \<and>
   attendances (snd (admin_request 0 MarkAttendance with_E1
     (mark_body ''admin'' ''admin123'' 2 noon_15_June_50 (Some ''present''))))
     = [\<lparr>employee = 2, date = - 60575040000000, status = ''present''\<rparr>] \<and>
   in_month 0 50 6 (- 60575040000000) \<and>
   map_sum id presentDays1
     (calculateSalary 0
        (snd (admin_request 0 MarkAttendance with_E1
           (mark_body ''admin'' ''admin123'' 2 noon_15_June_50 (Some ''present''))))
        2 50 6) = Inr 0"
  by (simp add: post_attendance_def seeded_def seed_admin_def seed_employee_def Let_def
      noon_15_June_50_def in_month_def getFullYear_def getMonth_def getDate_def
      YearFromTime_def YearFromDay_def MonthFromTime_def DateFromTime_def DayWithinYear_def
      InLeapYear_def DaysInYear_def DayFromYear_def monthStart_def LocalTime_def Day_def
      msPerDay_def newDate_def UTC_def MakeDate_def MakeDay_def MakeTime_def MakeFullYear_def
      startOfMonth_def endOfMonth_def calcSalaryForMonth_def calculateSalary_def
      countDocuments_def findOne_def updated_doc_def
      admin_request_def admin_route_def authenticate_def adminOnly_def mark_handler_def
      mark_body_def credentials_def empty_body_def with_E1_def seed_admin1_def employee_E1_def
      truthy_def str_def num_def startOfDay_def endOfDay_def setHours_def
      attendance_unique_def)

section \<open>Login\<close>

text \<open>
  C6. A login with the identifier of a stored employee and a secret that is not that
  employee's fails exactly as a login with an identifier nobody has: in
  \<^verbatim>\<open>backend/index.js\<close> both get the same 401 response; in the \<open>authenticate\<close> middleware of
  \<^verbatim>\<open>part_001\<close> both get status 401 and a body with the same fields, and the same response
  altogether when no credential is the empty string.
\<close>

theorem wrong_secret_answered_as_wrong_identifier:
  fixes st :: "employee store" and st1 :: "employee1 store"
  shows "((\<exists>e \<in> set (employees st). email e = em) \<and>
          (\<forall>e \<in> set (employees st). \<not> (email e = em \<and> password e = pw)) \<and>
          (\<forall>e \<in> set (employees st). email e \<noteq> em')
          \<longrightarrow> post_auth_login st em pw
                = reply 401 (JObj [(''error'', JStr ''invalid email or password'')]) \<and>
              post_auth_login st em' pw' = post_auth_login st em pw) \<and>
         (b_username b = Some u \<and> b_password b = Some p \<and>
          b_username b' = Some u' \<and> b_password b' = Some p' \<and>
          (\<exists>e \<in> set (employees st1). username e = u) \<and>
          (\<forall>e \<in> set (employees st1). \<not> (username e = u \<and> password1 e = p)) \<and>
          (\<forall>e \<in> set (employees st1). username e \<noteq> u')
          \<longrightarrow> (\<exists>r r'. authenticate st1 b = Inl r \<and> authenticate st1 b' = Inl r' \<and>
                  code r = 401 \<and> code r' = 401 \<and> field_names (body r) = field_names (body r') \<and>
                  (u \<noteq> [] \<and> p \<noteq> [] \<and> u' \<noteq> [] \<and> p' \<noteq> [] \<longrightarrow> r' = r)))"
proof (intro conjI impI)
  assume a: "(\<exists>e \<in> set (employees st). email e = em) \<and>
          (\<forall>e \<in> set (employees st). \<not> (email e = em \<and> password e = pw)) \<and>
          (\<forall>e \<in> set (employees st). email e \<noteq> em')"
  have 1: "findOne (\<lambda>e. email e = em \<and> password e = pw) (employees st) = None"
    using a by (simp add: findOne_None)
  have 2: "findOne (\<lambda>e. email e = em' \<and> password e = pw') (employees st) = None"
    using a by (simp add: findOne_None)
  show "post_auth_login st em pw
      = reply 401 (JObj [(''error'', JStr ''invalid email or password'')])"
    by (simp add: post_auth_login_def 1)
  show "post_auth_login st em' pw' = post_auth_login st em pw"
    by (simp add: post_auth_login_def 1 2)
next
  assume a: "b_username b = Some u \<and> b_password b = Some p \<and>
          b_username b' = Some u' \<and> b_password b' = Some p' \<and>
          (\<exists>e \<in> set (employees st1). username e = u) \<and>
          (\<forall>e \<in> set (employees st1). \<not> (username e = u \<and> password1 e = p)) \<and>
          (\<forall>e \<in> set (employees st1). username e \<noteq> u')"
  have 1: "findOne (\<lambda>e. username e = str (Some u) \<and> password1 e = str (Some p))
             (employees st1) = None"
    using a by (simp add: findOne_None str_def)
  have 2: "findOne (\<lambda>e. username e = str (Some u') \<and> password1 e = str (Some p'))
             (employees st1) = None"
    using a by (simp add: findOne_None str_def)
  show "\<exists>r r'. authenticate st1 b = Inl r \<and> authenticate st1 b' = Inl r' \<and>
          code r = 401 \<and> code r' = 401 \<and> field_names (body r) = field_names (body r') \<and>
          (u \<noteq> [] \<and> p \<noteq> [] \<and> u' \<noteq> [] \<and> p' \<noteq> [] \<longrightarrow> r' = r)"
    using a by (simp add: authenticate_def 1 2 fail1_def reply_def truthy_def)
qed

theorem wrong_secret_answered_as_wrong_identifier_witness:
  "post_auth_login (seeded 0) ''admin@pavakie.com'' ''wrong''
     = reply 401 (JObj [(''error'', JStr ''invalid email or password'')]) \<and>
   post_auth_login (seeded 0) ''nobody@pavakie.com'' ''guess''
     = post_auth_login (seeded 0) ''admin@pavakie.com'' ''wrong'' \<and>
   authenticate seeded1 (credentials ''admin'' ''wrong'')
     = Inl (fail1 401 ''Invalid username or password'') \<and>
   authenticate seeded1 (credentials ''nobody'' ''guess'')
     = authenticate seeded1 (credentials ''admin'' ''wrong'')"
  using wrong_secret_answered_as_wrong_identifier
    [of "seeded 0" "''admin@pavakie.com''" "''wrong''" "''nobody@pavakie.com''" "''guess''"
        "credentials ''admin'' ''wrong''" "''admin''" "''wrong''"
        "credentials ''nobody'' ''guess''" "''nobody''" "''guess''" seeded1]
  by (simp add: seeded_def seed_admin_def seed_employee_def seeded1_def seed_admin1_def
      credentials_def empty_body_def authenticate_def findOne_def str_def truthy_def
      post_auth_login_def)

text \<open>
  C10. A successful login (status 200) of \<^verbatim>\<open>backend/index.js\<close>, \<^verbatim>\<open>part_002\<close> (the same
  handler) and \<^verbatim>\<open>part_003\<close> returns, as \<^verbatim>\<open>user\<close>, every stored field of an employee
  document, the password among them as it is stored (the one the request sent); the logins of \<^verbatim>\<open>part_001\<close> return
  the document without its password field.
\<close>

theorem login_returns_password_unless_username_variant:
  fixes st :: "employee store" and st1 :: "employee1 store"
  shows "(code (post_auth_login st em pw) = 200 \<longrightarrow>
            (\<exists>user \<in> set (employees st).
               field ''user'' (body (post_auth_login st em pw)) = Some (employee_json user) \<and>
               field ''password'' (employee_json user) = Some (JStr (password user)) \<and>
               password user = pw)) \<and>
         (code (post_auth_login3 st em pw) = 200 \<longrightarrow>
            (\<exists>user \<in> set (employees st).
               field ''user'' (body (post_auth_login3 st em pw)) = Some (employee_json user) \<and>
               field ''password'' (employee_json user) = Some (JStr (password user)) \<and>
               password user = pw)) \<and>
         (code (post_admin_login st1 b) = 200 \<longrightarrow>
            (\<exists>user \<in> set (employees st1).
               field ''user'' (body (post_admin_login st1 b))
                 = Some (select_minus_password (employee1_json user)) \<and>
               field ''password'' (select_minus_password (employee1_json user)) = None)) \<and>
         (code (post_employee_login st1 b) = 200 \<longrightarrow>
            (\<exists>user \<in> set (employees st1).
               field ''user'' (body (post_employee_login st1 b))
                 = Some (select_minus_password (employee1_json user)) \<and>
               field ''password'' (select_minus_password (employee1_json user)) = None))"
proof -
  have pw_field: "field ''password'' (employee_json user) = Some (JStr (password user))"
    for user
    by (simp add: employee_json_def opt_field_def split: option.splits)
  have no_pw: "field ''password'' (select_minus_password (employee1_json user)) = None"
    for user
    by (simp add: employee1_json_def)
  have role: "code (role_login r invalid greeting st1 b) = 200 \<longrightarrow>
            (\<exists>user \<in> set (employees st1).
               field ''user'' (body (role_login r invalid greeting st1 b))
                 = Some (select_minus_password (employee1_json user)) \<and>
               field ''password'' (select_minus_password (employee1_json user)) = None)"
    for r invalid greeting
    using no_pw
    by (auto simp: role_login_def fail1_def reply_def split: option.splits dest!: findOne_Some)
  show ?thesis
    using pw_field role
    by (auto simp: post_auth_login_def post_auth_login3_def post_admin_login_def
        post_employee_login_def reply_def split: option.splits dest!: findOne_Some)
qed

theorem login_returns_password_witness:
  "field ''user'' (body (post_auth_login (seeded 0) ''admin@pavakie.com'' ''admin123''))
     = Some (employee_json (seed_admin 0)) \<and>
   field ''user'' (body (post_auth_login3 (seeded 0) ''admin@pavakie.com'' ''admin123''))
     = Some (employee_json (seed_admin 0)) \<and>
   field ''password'' (employee_json (seed_admin 0)) = Some (JStr ''admin123'') \<and>
   field ''user'' (body (post_admin_login seeded1 (credentials ''admin'' ''admin123'')))
     = Some (select_minus_password (employee1_json seed_admin1)) \<and>
   field ''password'' (select_minus_password (employee1_json seed_admin1)) = None \<and>
   code (post_employee_login (seeded1\<lparr>employees := [seed_admin1, employee_E1]\<rparr>)
           (credentials ''a'' ''secret'')) = 200"
  using login_returns_password_unless_username_variant
    [of "seeded 0" "''admin@pavakie.com''" "''admin123''" seeded1
        "credentials ''admin'' ''admin123''"]
    login_returns_password_unless_username_variant
    [of "seeded 0" "''admin@pavakie.com''" "''admin123''"
        "seeded1\<lparr>employees := [seed_admin1, employee_E1]\<rparr>" "credentials ''a'' ''secret''"]
  by (simp add: seeded_def seed_admin_def seed_employee_def seeded1_def seed_admin1_def
      employee_E1_def credentials_def empty_body_def post_auth_login_def post_auth_login3_def
      post_admin_login_def post_employee_login_def role_login_def findOne_def str_def
      truthy_def reply_def employee_json_def employee1_json_def opt_field_def)

section \<open>Role enforcement\<close>

text \<open>
  C7, as amended. In \<^verbatim>\<open>part_001\<close>, when \<open>authenticate\<close> resolves the caller to an employee
  whose role is not admin, every admin-only route answers 403 with the message of
  \<open>adminOnly\<close>, whatever the body holds, and the database is as before.
\<close>

theorem non_admin_is_forbidden_on_admin_routes:
  "authenticate st b = Inr user \<and> role1 user \<noteq> ''admin'' \<longrightarrow>
     admin_request tz op st b = (fail1 403 ''Access denied. Admin privileges required.'', st)"
  by (simp add: admin_request_def admin_route_def adminOnly_def)

theorem non_admin_is_forbidden_witness:
  "authenticate with_E1 ((credentials ''a'' ''secret'')\<lparr>b_employeeId := Some 1\<rparr>) = Inr employee_E1 \<and>
   role1 employee_E1 = ''employee'' \<and>
   admin_request 0 DeleteEmployee with_E1 ((credentials ''a'' ''secret'')\<lparr>b_employeeId := Some 1\<rparr>)
     = (fail1 403 ''Access denied. Admin privileges required.'', with_E1)"
  using non_admin_is_forbidden_on_admin_routes
    [of with_E1 "(credentials ''a'' ''secret'')\<lparr>b_employeeId := Some 1\<rparr>" employee_E1 0
        DeleteEmployee]
  by (simp add: with_E1_def seed_admin1_def employee_E1_def credentials_def empty_body_def
      authenticate_def findOne_def str_def truthy_def)

text \<open>
  The claim as stated fails on the other files. \<^verbatim>\<open>DELETE /employees/:id\<close> of
  \<^verbatim>\<open>backend/index.js\<close> takes no credentials at all and deletes the admin; in \<^verbatim>\<open>part_002\<close>
  the caller that \<open>auth\<close> resolves to the sample employee (role employee) deletes the
  admin as well. Both answer 200.
\<close>

theorem employee_deletes_admin_counterexample:
  "code (fst (delete_employees (seeded 0) 1)) = 200 \<and>
   employees (snd (delete_employees (seeded 0) 1)) = [seed_employee 0] \<and>
   auth ''invalid user'' (seeded 0) (Some ''employee@pavakie.com'') = Inr (seed_employee 0) \<and>
   role (seed_employee 0) = ''employee'' \<and>
   code (fst (delete_employees2 (seeded 0) (Some ''employee@pavakie.com'') 1)) = 200 \<and>
   employees (snd (delete_employees2 (seeded 0) (Some ''employee@pavakie.com'') 1))
     = [seed_employee 0]"
  by (simp add: delete_employees_def delete_employees2_def auth_def seeded_def seed_admin_def
      seed_employee_def findOne_def deleteMany_def str_def truthy_def reply_def Let_def)

section \<open>Marking attendance\<close>

lemma findOneAndUpdate_set:
  "set (findOneAndUpdate q upd ins xs) \<subseteq> set xs \<union> {ins} \<union> upd ` set xs"
  by (induction xs) auto


lemma localDay_setHours:
  assumes "0 \<le> MakeTime h m s ms" "MakeTime h m s ms < msPerDay"
  shows "localDay tz (setHours tz t h m s ms) = localDay tz t"
proof -
  have "(Day (t + tz) * msPerDay + MakeTime h m s ms) div msPerDay = Day (t + tz)"
    using assms by (simp add: msPerDay_def div_pos_pos_trivial)
  then show ?thesis
    by (simp add: localDay_def setHours_def LocalTime_def UTC_def MakeDate_def Day_def)
qed

lemma timeOfDay_setHours:
  assumes "0 \<le> MakeTime h m s ms" "MakeTime h m s ms < msPerDay"
  shows "timeOfDay tz (setHours tz t h m s ms) = MakeTime h m s ms"
  using assms
  by (simp add: timeOfDay_def setHours_def LocalTime_def UTC_def MakeDate_def TimeWithinDay_def
      msPerDay_def mod_pos_pos_trivial)

lemma startOfDay_day [simp]: "localDay tz (startOfDay tz t) = localDay tz t"
  by (simp add: startOfDay_def localDay_setHours MakeTime_def msPerDay_def)

lemma startOfDay_time [simp]: "timeOfDay tz (startOfDay tz t) = 0"
  by (simp add: startOfDay_def timeOfDay_setHours MakeTime_def msPerDay_def)

lemma endOfDay_day [simp]: "localDay tz (endOfDay tz t) = localDay tz t"
  by (simp add: endOfDay_def localDay_setHours MakeTime_def msPerDay_def)

lemma endOfDay_time [simp]: "timeOfDay tz (endOfDay tz t) = 86399999"
  by (simp add: endOfDay_def timeOfDay_setHours MakeTime_def msPerDay_def)




text \<open>
  C9, as amended. Every attendance document that \<^verbatim>\<open>POST /admin/attendance/mark\<close> of
  \<^verbatim>\<open>part_001\<close> writes has, as its date, the first millisecond of the local day of the
  request's date; every document that \<^verbatim>\<open>POST /attendance\<close> of \<^verbatim>\<open>part_002\<close> and
  \<^verbatim>\<open>part_003\<close> writes has the last millisecond of that day. In both the stored date is a
  function of the calendar day alone.
\<close>

theorem stored_date_is_a_day_boundary:
  "(\<forall>a \<in> set (attendances (snd (admin_request tz MarkAttendance st1 b))) - set (attendances st1).
      \<exists>d. b_date b = DateAt d \<and> localDay tz (date a) = localDay tz d \<and>
          timeOfDay tz (date a) = 0) \<and>
   (\<forall>a \<in> set (attendances (snd (post_attendance2 invalid tz st ident emp dt sts)))
          - set (attendances st).
      \<exists>d. dt = DateAt d \<and> localDay tz (date a) = localDay tz d \<and>
          timeOfDay tz (date a) = 86399999)"
proof (intro conjI ballI)
  fix a
  assume a: "a \<in> set (attendances (snd (admin_request tz MarkAttendance st1 b)))
      - set (attendances st1)"
  then have changed: "snd (admin_request tz MarkAttendance st1 b) \<noteq> st1"
    by auto
  then have run: "admin_request tz MarkAttendance st1 b = mark_handler tz st1 b"
    by (auto simp: admin_request_def admin_route_def split: sum.splits option.splits)
  from changed run obtain d where d: "b_date b = DateAt d"
    by (cases "b_date b") (auto simp: mark_handler_def split: option.splits if_splits)
  from a run d obtain q upd ins where
    mem: "a \<in> set (findOneAndUpdate q upd ins (attendances st1))" and
    upd: "\<And>x. date (upd x) = startOfDay tz d" and ins: "date ins = startOfDay tz d"
    by (auto simp: mark_handler_def Let_def split: option.splits if_splits)
  from mem a findOneAndUpdate_set [of q upd ins "attendances st1"]
  have "date a = startOfDay tz d"
    using upd ins by auto
  then show "\<exists>d. b_date b = DateAt d \<and> localDay tz (date a) = localDay tz d \<and>
      timeOfDay tz (date a) = 0"
    using d by simp
next
  fix a
  assume a: "a \<in> set (attendances (snd (post_attendance2 invalid tz st ident emp dt sts)))
      - set (attendances st)"
  then have changed: "snd (post_attendance2 invalid tz st ident emp dt sts) \<noteq> st"
    by auto
  then obtain d where d: "dt = DateAt d"
    by (cases dt) (auto simp: post_attendance2_def split: sum.splits option.splits)
  from a d obtain q upd ins where
    mem: "a \<in> set (findOneAndUpdate q upd ins (attendances st))" and
    upd: "\<And>x. date (upd x) = endOfDay tz (startOfDay tz d)" and
    ins: "date ins = endOfDay tz (startOfDay tz d)"
    by (auto simp: post_attendance2_def Let_def startOfDay_def endOfDay_def
        split: sum.splits option.splits)
  from mem a findOneAndUpdate_set [of q upd ins "attendances st"]
  have "date a = endOfDay tz (startOfDay tz d)"
    using upd ins by auto
  then show "\<exists>d. dt = DateAt d \<and> localDay tz (date a) = localDay tz d \<and>
      timeOfDay tz (date a) = 86399999"
    using d by simp
qed

theorem stored_date_is_a_day_boundary_witness:
  "attendances (snd (admin_request 0 MarkAttendance with_E1
     (mark_body ''admin'' ''admin123'' 2 morning_3_March_2025 (Some ''present''))))
     = [\<lparr>employee = 2, date = 1740960000000, status = ''present''\<rparr>] \<and>
   localDay 0 1740960000000 = localDay 0 morning_3_March_2025 \<and>
   timeOfDay 0 1740960000000 = 0 \<and>
   attendances (snd (post_attendance2 ''invalid user'' 0 (seeded 0) (Some ''admin@pavakie.com'')
     (Some 2) (DateAt morning_3_March_2025) (Some ''present'')))
     = [\<lparr>employee = 2, date = 1741046399999, status = ''present''\<rparr>] \<and>
   localDay 0 1741046399999 = localDay 0 morning_3_March_2025 \<and>
   timeOfDay 0 1741046399999 = 86399999"
  using stored_date_is_a_day_boundary
    [of 0 with_E1 "mark_body ''admin'' ''admin123'' 2 morning_3_March_2025 (Some ''present'')"
        "''invalid user''" "seeded 0" "Some ''admin@pavakie.com''" "Some 2"
        "DateAt morning_3_March_2025" "Some ''present''"]
  by (simp add: admin_request_def admin_route_def authenticate_def adminOnly_def mark_handler_def
      mark_body_def credentials_def empty_body_def with_E1_def seed_admin1_def employee_E1_def
      morning_3_March_2025_def findOne_def truthy_def str_def num_def Let_def
      startOfDay_def endOfDay_def setHours_def LocalTime_def UTC_def MakeDate_def MakeTime_def
      Day_def TimeWithinDay_def msPerDay_def attendance_unique_def updated_doc_def
      post_attendance2_def auth_def seeded_def seed_admin_def seed_employee_def
      localDay_def timeOfDay_def)

text \<open>
  The claim as stated fails on \<^verbatim>\<open>backend/index.js\<close>, whose \<^verbatim>\<open>POST /attendance\<close> stores
  the date of the request as it came: a request dated 09:00 stores 09:00.
\<close>

theorem time_of_day_stored_counterexample:
  "attendances (snd (post_attendance 0 (seeded 0) (Some 2) (DateAt morning_3_March_2025)
     (Some ''present'')))
     = [\<lparr>employee = 2, date = morning_3_March_2025, status = ''present''\<rparr>] \<and>
   timeOfDay 0 morning_3_March_2025 = 9 * 3600000"
  by (simp add: post_attendance_def seeded_def Let_def timeOfDay_def TimeWithinDay_def
      LocalTime_def msPerDay_def morning_3_March_2025_def)

section \<open>One attendance document for each employee and day\<close>

lemma day_window:
  "(startOfDay tz d \<le> t \<and> t \<le> endOfDay tz d) \<longleftrightarrow> localDay tz t = localDay tz d"
proof -
  have "(startOfDay tz d \<le> t \<and> t \<le> endOfDay tz d) \<longleftrightarrow>
        (localDay tz d * msPerDay \<le> LocalTime tz t \<and>
         LocalTime tz t \<le> localDay tz d * msPerDay + 86399999)"
    by (auto simp: startOfDay_def endOfDay_def setHours_def UTC_def MakeDate_def MakeTime_def
          LocalTime_def localDay_def)
  also have "\<dots> \<longleftrightarrow> (localDay tz d \<le> Day (LocalTime tz t) \<and> Day (LocalTime tz t) \<le> localDay tz d)"
    by (rule Day_window)
  finally show ?thesis by (auto simp: localDay_def)
qed

text \<open>
  The window that \<^verbatim>\<open>POST /attendance\<close> of \<^verbatim>\<open>backend/index.js\<close> rebuilds from year, month
  and date is the local day of \<open>d\<close>, unless the year of \<open>d\<close> is one of 0 to 99.
\<close>

lemma rebuilt_window:
  assumes "getFullYear tz d < 0 \<or> 99 < getFullYear tz d"
  shows "newDate tz (getFullYear tz d) (getMonth tz d) (getDate tz d) 0 0 0 0 = startOfDay tz d"
    and "newDate tz (getFullYear tz d) (getMonth tz d) (getDate tz d) 23 59 59 999 = endOfDay tz d"
proof -
  have y: "MakeFullYear (getFullYear tz d) = getFullYear tz d"
    using assms by (auto simp: MakeFullYear_def)
  have day: "MakeDay (getFullYear tz d) (getMonth tz d) (getDate tz d) = Day (LocalTime tz d)"
    by (simp add: getFullYear_def getMonth_def getDate_def MakeDay_of_time)
  show "newDate tz (getFullYear tz d) (getMonth tz d) (getDate tz d) 0 0 0 0 = startOfDay tz d"
    by (simp add: newDate_def y day startOfDay_def setHours_def)
  show "newDate tz (getFullYear tz d) (getMonth tz d) (getDate tz d) 23 59 59 999 = endOfDay tz d"
    by (simp add: newDate_def y day endOfDay_def setHours_def)
qed

lemma findOneAndUpdate_keys:
  assumes "\<And>x. q x \<longleftrightarrow> key x = k" "\<And>x. key (upd x) = k" "key ins = k"
  shows "map key (findOneAndUpdate q upd ins xs)
         = (if k \<in> set (map key xs) then map key xs else map key xs @ [k])"
  using assms by (induction xs) auto

lemma findOneAndUpdate_distinct:
  assumes "\<And>x. q x \<longleftrightarrow> key x = k" "\<And>x. key (upd x) = k" "key ins = k"
    and "distinct (map key xs)"
  shows "distinct (map key (findOneAndUpdate q upd ins xs))"
  using assms(4) by (simp add: findOneAndUpdate_keys [of q key k upd ins, OF assms(1-3)])

lemma findOneAndUpdate_idem:
  assumes "\<And>x. upd x = ins" "q ins"
  shows "findOneAndUpdate q upd ins (findOneAndUpdate q upd ins xs)
         = findOneAndUpdate q upd ins xs"
  using assms by (induction xs) auto

lemma deleteMany_one_per_day:
  "one_per_day tz xs \<Longrightarrow> one_per_day tz (deleteMany q xs)"
  by (simp add: one_per_day_def deleteMany_def distinct_map_filter)

text \<open>
  In \<^verbatim>\<open>backend/index.js\<close> a request keeps the invariant when the year of its date is not
  one of 0 to 99.
\<close>

lemma post_attendance_one_per_day:
  assumes "one_per_day tz (attendances st)"
    and "\<And>d. dt = DateAt d \<Longrightarrow> getFullYear tz d < 0 \<or> 99 < getFullYear tz d"
  shows "one_per_day tz (attendances (snd (post_attendance tz st emp dt sts)))"
proof (cases "\<exists>e d. emp = Some e \<and> dt = DateAt d")
  case False
  then show ?thesis
    using assms(1) by (cases emp; cases dt) (auto simp: post_attendance_def)
next
  case True
  then obtain e d where ed: "emp = Some e" "dt = DateAt d" by blast
  have w: "newDate tz (getFullYear tz d) (getMonth tz d) (getDate tz d) 0 0 0 0 = startOfDay tz d"
    "newDate tz (getFullYear tz d) (getMonth tz d) (getDate tz d) 23 59 59 999 = endOfDay tz d"
    using rebuilt_window [OF assms(2) [OF ed(2)]] by blast+
  have "distinct (map (\<lambda>a. (employee a, localDay tz (date a)))
      (findOneAndUpdate (\<lambda>a. employee a = e \<and> startOfDay tz d \<le> date a \<and> date a \<le> endOfDay tz d)
        (\<lambda>a. a\<lparr>employee := e, status := (case sts of None \<Rightarrow> status a | Some v \<Rightarrow> v), date := d\<rparr>)
        \<lparr>employee = e, date = d, status = (case sts of None \<Rightarrow> ''present'' | Some v \<Rightarrow> v)\<rparr>
        (attendances st)))"
    by (rule findOneAndUpdate_distinct [where k = "(e, localDay tz d)"])
      (use assms(1) in \<open>auto simp: day_window one_per_day_def\<close>)
  then show ?thesis
    by (simp add: post_attendance_def ed w Let_def one_per_day_def)
qed

text \<open>In \<^verbatim>\<open>part_001\<close> every request to an admin route keeps the invariant.\<close>

lemma mark_handler_one_per_day:
  assumes "one_per_day tz (attendances st)"
  shows "one_per_day tz (attendances (snd (mark_handler tz st b)))"
proof (cases "snd (mark_handler tz st b) = st")
  case True
  then show ?thesis using assms by simp
next
  case False
  then obtain d where d: "b_date b = DateAt d"
    by (cases "b_date b") (auto simp: mark_handler_def split: option.splits if_splits)
  define i where "i = num (b_employeeId b)"
  define sts where "sts = (if truthy (b_status b) then str (b_status b) else ''present'')"
  have "distinct (map (\<lambda>a. (employee a, localDay tz (date a)))
      (findOneAndUpdate
        (\<lambda>a. employee a = i \<and> startOfDay tz (startOfDay tz d) \<le> date a \<and>
             date a \<le> endOfDay tz (startOfDay tz d))
        (\<lambda>a. a\<lparr>employee := i, date := startOfDay tz d, status := sts\<rparr>)
        \<lparr>employee = i, date = startOfDay tz d, status = sts\<rparr>
        (attendances st)))"
    by (rule findOneAndUpdate_distinct [where k = "(i, localDay tz d)"])
      (use assms in \<open>auto simp: day_window one_per_day_def\<close>)
  then show ?thesis
    using False d
    by (auto simp: mark_handler_def Let_def one_per_day_def i_def sts_def
        split: option.splits if_splits)
qed

lemma admin_request_one_per_day:
  assumes "one_per_day tz (attendances st)"
  shows "one_per_day tz (attendances (snd (admin_request tz op st b)))"
proof (cases "admin_request tz op st b = admin_handler tz op st b")
  case False
  then have "snd (admin_request tz op st b) = st"
    by (auto simp: admin_request_def admin_route_def split: sum.splits option.splits)
  then show ?thesis using assms by simp
next
  case True
  show ?thesis
    unfolding True using assms
    by (cases op)
      (auto simp: create_handler_def list_handler_def get_handler_def update_handler_def
        delete_handler_def view_handler_def payslip_handler_def Let_def
        mark_handler_one_per_day deleteMany_one_per_day
        split: option.splits if_splits sum.splits)
qed

lemma reachable1_one_per_day: "reachable1 tz st \<Longrightarrow> one_per_day tz (attendances st)"
proof (induction rule: reachable1.induct)
  case seeded
  show ?case by (simp add: seeded1_def one_per_day_def)
next
  case (request st op b)
  then show ?case by (simp add: admin_request_one_per_day)
qed

text \<open>
  In \<^verbatim>\<open>part_001\<close> a second request to mark attendance with the same body leaves the
  database as the first one left it.
\<close>

lemma mark_handler_twice:
  "snd (mark_handler tz (snd (mark_handler tz st b)) b) = snd (mark_handler tz st b)"
proof (cases "snd (mark_handler tz st b) = st")
  case True
  then show ?thesis by simp
next
  case False
  then obtain d where d: "b_date b = DateAt d"
    by (cases "b_date b") (auto simp: mark_handler_def split: option.splits if_splits)
  define i where "i = num (b_employeeId b)"
  define sts where "sts = (if truthy (b_status b) then str (b_status b) else ''present'')"
  define q where "q = (\<lambda>a::attendance. employee a = i \<and>
      startOfDay tz (startOfDay tz d) \<le> date a \<and> date a \<le> endOfDay tz (startOfDay tz d))"
  define upd where "upd = (\<lambda>a::attendance. a\<lparr>employee := i, date := startOfDay tz d,
      status := sts\<rparr>)"
  define ins where "ins = \<lparr>employee = i, date = startOfDay tz d, status = sts\<rparr>"
  define xs where "xs = findOneAndUpdate q upd ins (attendances st)"
  have first: "snd (mark_handler tz st b) = st\<lparr>attendances := xs\<rparr>" and u: "attendance_unique xs"
    and pre: "\<not> (b_employeeId b = None \<or> b_date b = NoDate)"
      "\<not> (truthy (b_status b) \<and> str (b_status b) \<notin> set [''present'', ''absent''])"
      "findOne (\<lambda>e. id1 e = num (b_employeeId b)) (employees st) \<noteq> None"
    using False d
    by (auto simp: mark_handler_def Let_def xs_def q_def upd_def ins_def i_def sts_def
        split: option.splits if_splits)
  have "q ins"
    by (simp add: q_def ins_def day_window)
  moreover have "upd x = ins" for x
    by (simp add: upd_def ins_def)
  ultimately have idem: "findOneAndUpdate q upd ins xs = xs"
    unfolding xs_def by (intro findOneAndUpdate_idem) auto
  have "snd (mark_handler tz (st\<lparr>attendances := xs\<rparr>) b) = st\<lparr>attendances := xs\<rparr>"
    using pre d u idem
    by (auto simp: mark_handler_def Let_def q_def upd_def ins_def i_def sts_def
        split: option.splits if_splits)
  then show ?thesis by (simp add: first)
qed

lemma admin_mark_twice:
  "snd (admin_request tz MarkAttendance (snd (admin_request tz MarkAttendance st b)) b)
   = snd (admin_request tz MarkAttendance st b)"
proof (cases "admin_request tz MarkAttendance st b = mark_handler tz st b")
  case False
  then have "snd (admin_request tz MarkAttendance st b) = st"
    by (auto simp: admin_request_def admin_route_def split: sum.splits option.splits)
  then show ?thesis by simp
next
  case True
  have emps: "employees (snd (mark_handler tz st b)) = employees st"
    by (auto simp: mark_handler_def Let_def split: option.splits if_splits date_field.splits)
  have auth: "authenticate st' b = authenticate st b" if "employees st' = employees st" for st'
    using that by (simp add: authenticate_def)
  have pass: "admin_request tz MarkAttendance st' b = mark_handler tz st' b"
    if "employees st' = employees st" "authenticate st b = Inr user" "adminOnly user = None"
    for st' user
    using that auth [of st'] by (simp add: admin_request_def admin_route_def)
  show ?thesis
  proof (cases "authenticate st b")
    case (Inl r)
    then show ?thesis by (simp add: admin_request_def admin_route_def)
  next
    case (Inr user)
    show ?thesis
    proof (cases "adminOnly user")
      case (Some r)
      then show ?thesis using Inr by (simp add: admin_request_def admin_route_def)
    next
      case None
      then show ?thesis
        using pass [of "snd (mark_handler tz st b)" user] pass [of st user] Inr emps
        by (simp add: mark_handler_twice)
    qed
  qed
qed

text \<open>
  C3. On \<^verbatim>\<open>backend/index.js\<close> the invariant fails for a date in one of the years 0 to
  99. The request is dated noon of 15 June of the year 50; the filter window is rebuilt
  from the year 50, which the Date constructor reads as 1950, so the document stored by
  the first request is not found by the second, and the day has two documents.
\<close>

theorem year_50_day_has_two_documents:
  "getFullYear 0 noon_15_June_50 = 50 \<and>
   newDate 0 50 5 15 0 0 0 0 = - 616896000000 \<and>
   attendances (snd (post_attendance 0
     (snd (post_attendance 0 (seeded 0) (Some 2) (DateAt noon_15_June_50) (Some ''absent'')))
     (Some 2) (DateAt noon_15_June_50) (Some ''present'')))
     = [\<lparr>employee = 2, date = noon_15_June_50, status = ''absent''\<rparr>,
        \<lparr>employee = 2, date = noon_15_June_50, status = ''present''\<rparr>] \<and>
   \<not> one_per_day 0
     [\<lparr>employee = 2, date = noon_15_June_50, status = ''absent''\<rparr>,
      \<lparr>employee = 2, date = noon_15_June_50, status = ''present''\<rparr>]"
  by (simp add: post_attendance_def seeded_def Let_def noon_15_June_50_def getFullYear_def
      getMonth_def getDate_def YearFromTime_def YearFromDay_def MonthFromTime_def
      DateFromTime_def DayWithinYear_def InLeapYear_def DaysInYear_def DayFromYear_def
      monthStart_def LocalTime_def Day_def msPerDay_def newDate_def UTC_def MakeDate_def
      MakeDay_def MakeTime_def MakeFullYear_def one_per_day_def localDay_def)

text \<open>
  C4. The same defect: the same request sent twice stores two equal documents, and the
  database after the second request is not the one after the first.
\<close>

theorem year_50_mark_is_not_idempotent:
  "attendances (snd (post_attendance 0 (seeded 0) (Some 2) (DateAt noon_15_June_50)
     (Some ''present'')))
     = [\<lparr>employee = 2, date = noon_15_June_50, status = ''present''\<rparr>] \<and>
   attendances (snd (post_attendance 0
     (snd (post_attendance 0 (seeded 0) (Some 2) (DateAt noon_15_June_50) (Some ''present'')))
     (Some 2) (DateAt noon_15_June_50) (Some ''present'')))
     = [\<lparr>employee = 2, date = noon_15_June_50, status = ''present''\<rparr>,
        \<lparr>employee = 2, date = noon_15_June_50, status = ''present''\<rparr>]"
  by (simp add: post_attendance_def seeded_def Let_def noon_15_June_50_def getFullYear_def
      getMonth_def getDate_def YearFromTime_def YearFromDay_def MonthFromTime_def
      DateFromTime_def DayWithinYear_def InLeapYear_def DaysInYear_def DayFromYear_def
      monthStart_def LocalTime_def Day_def msPerDay_def newDate_def UTC_def MakeDate_def
      MakeDay_def MakeTime_def MakeFullYear_def)

section \<open>Deleting an employee\<close>

text \<open>
  \<^verbatim>\<open>backend/index.js\<close> and \<^verbatim>\<open>part_001\<close> delete the attendance of the employee: afterwards
  no attendance document refers to the employee, and the attendance routes find none.
\<close>

lemma delete_employees_cascades:
  "\<forall>a \<in> set (attendances (snd (delete_employees st i))). employee a \<noteq> i"
  by (auto simp: delete_employees_def Let_def deleteMany_def split: option.splits)

lemma get_attendance_after_delete:
  "filter (attendance_query tz (Some i) mth yr) (attendances (snd (delete_employees st i))) = []"
  using delete_employees_cascades [of st i]
  by (auto simp: filter_empty_conv attendance_query_def eq_filter_def)

lemma delete_handler_cascades:
  assumes "code (fst (admin_request tz DeleteEmployee st b)) = 200"
  shows "\<exists>i. b_employeeId b = Some i \<and>
    (\<forall>a \<in> set (attendances (snd (admin_request tz DeleteEmployee st b))). employee a \<noteq> i) \<and>
    filter (view_query tz i mth yr) (attendances (snd (admin_request tz DeleteEmployee st b))) = []"
  using assms
  by (auto simp: admin_request_def admin_route_def authenticate_def adminOnly_def
      delete_handler_def deleteMany_def fail1_def reply_def filter_empty_conv view_query_def
      split: sum.splits option.splits if_splits)

text \<open>
  C5. \<^verbatim>\<open>DELETE /employees/:id\<close> of \<^verbatim>\<open>part_002\<close> deletes the employee document only: the
  attendance document of the deleted employee 2 is still stored.
\<close>

theorem part_002_delete_keeps_attendance:
  "code (fst (delete_employees2
     ((seeded 0)\<lparr>attendances := [\<lparr>employee = 2, date = morning_3_March_2025, status = ''present''\<rparr>]\<rparr>)
     (Some ''admin@pavakie.com'') 2)) = 200 \<and>
   employees (snd (delete_employees2
     ((seeded 0)\<lparr>attendances := [\<lparr>employee = 2, date = morning_3_March_2025, status = ''present''\<rparr>]\<rparr>)
     (Some ''admin@pavakie.com'') 2)) = [seed_admin 0] \<and>
   attendances (snd (delete_employees2
     ((seeded 0)\<lparr>attendances := [\<lparr>employee = 2, date = morning_3_March_2025, status = ''present''\<rparr>]\<rparr>)
     (Some ''admin@pavakie.com'') 2))
     = [\<lparr>employee = 2, date = morning_3_March_2025, status = ''present''\<rparr>]"
  by (simp add: delete_employees2_def auth_def seeded_def seed_admin_def seed_employee_def
      findOne_def str_def truthy_def reply_def)

end
